theory Spec2Isabelle
  imports Main "HOL-Library.Word"
begin

section \<open>Data model\<close>

text \<open>
  The repository holds four stand-alone Go programs that talk to a cluster API: a Pod
  watcher (\<^verbatim>\<open>k8s/pods/watcher/main.go\<close>), a Deployment utility
  (\<^verbatim>\<open>k8s/deployments/main.go\<close>), a DeploymentConfig utility and a MachineSet
  utility. The API object types come from the client libraries; they are modelled with the
  fields the programs read or set, every other field being left at its zero value.
  Go's \<^verbatim>\<open>int32\<close> and \<^verbatim>\<open>uint32\<close> are 32-bit words, \<^verbatim>\<open>int\<close> is a 64-bit word
  (its width on the 64-bit platforms).
\<close>

type_synonym int32 = "32 word"
type_synonym uint32 = "32 word"
type_synonym go_int = "64 word"

record ObjectMeta =
  Name :: string
  Namespace :: string
  Labels :: "string \<rightharpoonup> string"

subsection \<open>Pods and watch events\<close>

record ContainerStateWaiting =
  Reason :: string
  Message :: string

record ContainerStateRunning =
  StartedAt :: string

record ContainerStateTerminated =
  ExitCode :: int32
  Terminated_Reason :: string

text \<open>The three members of a container state are pointers: \<open>None\<close> is \<^verbatim>\<open>nil\<close>.\<close>

record ContainerState =
  Waiting :: "ContainerStateWaiting option"
  Running :: "ContainerStateRunning option"
  Terminated :: "ContainerStateTerminated option"

record ContainerStatus =
  ContainerStatus_Name :: string
  State :: ContainerState

record PodStatus =
  Phase :: string
  ContainerStatuses :: "ContainerStatus list"

record Pod =
  Pod_ObjectMeta :: ObjectMeta
  Pod_Status :: PodStatus

datatype EventType = Added | Modified | Deleted | Bookmark | Error

text \<open>
  The payload of an event is an interface value. The type assertion of the watcher only
  separates a \<^verbatim>\<open>*corev1.Pod\<close> from everything else, so every other dynamic type (and the
  \<^verbatim>\<open>nil\<close> interface) is one constructor, carrying the name of the type. The decoder of the
  watch stream allocates the object it delivers, so a \<^verbatim>\<open>nil\<close> pointer of type
  \<^verbatim>\<open>*corev1.Pod\<close> is not among the payloads.
\<close>

datatype runtime_Object = PodObject Pod | OtherObject string

record Event =
  Type :: EventType
  Object :: runtime_Object

subsection \<open>Deployments, DeploymentConfigs, MachineSets\<close>

record ContainerPort =
  ContainerPort_Name :: string
  Protocol :: string
  ContainerPort :: int32

record Container =
  Container_Name :: string
  Image :: string
  Ports :: "ContainerPort list"

record PodSpec =
  Containers :: "Container list"

record PodTemplateSpec =
  Template_ObjectMeta :: ObjectMeta
  Template_Spec :: PodSpec

record LabelSelector =
  MatchLabels :: "string \<rightharpoonup> string"

record DeploymentSpec =
  Replicas :: "int32 option"
  Selector :: "LabelSelector option"
  Template :: PodTemplateSpec

record Deployment =
  Deployment_ObjectMeta :: ObjectMeta
  Deployment_Spec :: DeploymentSpec

record DeploymentList =
  Items :: "Deployment list"

record ScaleSpec =
  Scale_Replicas :: int32

record Scale =
  Scale_ObjectMeta :: ObjectMeta
  Scale_Spec :: ScaleSpec

record DeploymentTriggerPolicy =
  Trigger_Type :: string

record DeploymentConfigSpec =
  DC_Replicas :: int32
  DC_Selector :: "string \<rightharpoonup> string"
  DC_Template :: "PodTemplateSpec option"
  Triggers :: "DeploymentTriggerPolicy list"

record DeploymentConfig =
  DC_ObjectMeta :: ObjectMeta
  DC_Spec :: DeploymentConfigSpec

record DeploymentConfigList =
  DC_Items :: "DeploymentConfig list"

record MachineSet =
  MachineSet_ObjectMeta :: ObjectMeta

record MachineSetList =
  MachineSet_Items :: "MachineSet list"

subsection \<open>JSON patches\<close>

record stringPatch =
  stringPatch_Op :: string
  stringPatch_Path :: string
  stringPatch_Value :: string

record integerPatch =
  integerPatch_Op :: string
  integerPatch_Path :: string
  integerPatch_Value :: uint32

text \<open>
  \<^verbatim>\<open>json.Marshal\<close> is a library function: the bytes it returns are kept as the value
  they encode. It cannot fail on these two struct types, and the programs drop its error.
\<close>

datatype payload = json_stringPatches "stringPatch list" | json_integerPatches "integerPatch list"

datatype PatchType = JSONPatchType | MergePatchType | StrategicMergePatchType | ApplyPatchType

subsection \<open>Errors\<close>

text \<open>
  An error is either returned by the operating system, a client library or the API (with
  its text, and with what \<^verbatim>\<open>errors.IsNotFound\<close> says about it), or built by
  \<^verbatim>\<open>fmt.Errorf\<close> from a format with one \<^verbatim>\<open>%v\<close> and an error. The latter does not wrap
  its operand, so it is never a not-found error.
\<close>

datatype error = Library_error bool string | Errorf string error

fun IsNotFound :: "error \<Rightarrow> bool" where
  "IsNotFound (Library_error nf msg) = nf"
| "IsNotFound (Errorf f e) = False"

section \<open>Effects of a process\<close>

text \<open>
  What a program writes is kept as the list of its print calls, each with its format and
  its operands: the rendering of \<^verbatim>\<open>fmt\<close> is not part of the repository. \<open>Printf\<close> and
  \<open>Println\<close> write to standard output; \<open>Log_Fatal\<close> is the line \<^verbatim>\<open>log.Fatal\<close> writes to
  standard error, and \<open>Panic_report\<close> the report of the runtime for an unrecovered panic.
\<close>

datatype arg =
    S string              \<comment> \<open>a string operand\<close>
  | D int                 \<comment> \<open>an integer operand\<close>
  | V error               \<comment> \<open>an error operand\<close>
  | Error_text error      \<comment> \<open>the string \<^verbatim>\<open>err.Error()\<close>\<close>
  | Method_value          \<comment> \<open>the method value \<^verbatim>\<open>err.Error\<close>, not called: a function\<close>
  | V_Deployment Deployment
  | Client_value string   \<comment> \<open>a client, printed with \<^verbatim>\<open>%T\<close>: the name of its type\<close>

datatype written =
    Printf string "arg list"
  | Println "arg list"
  | Log_Fatal "arg list"
  | Panic_report arg

text \<open>
  Every call that leaves the program (to the operating system, to the client libraries'
  constructors, to the API) is logged with its arguments and with the error it returned,
  \<open>None\<close> when it succeeded. Contexts and empty option structs are left out.
\<close>

type_synonym Config = string

datatype call =
    os_UserHomeDir
  | clientcmd_BuildConfigFromFlags string string
  | NewForConfig_call Config
  | Watch_Pods string string
  | Create_Deployment string Deployment
  | Get_Deployment string string
  | List_Deployments string
  | Patch_Deployment string string PatchType payload
  | GetScale_Deployment string string
  | UpdateScale_Deployment string string Scale
  | Delete_Deployment string string
  | Create_DeploymentConfig string DeploymentConfig
  | List_DeploymentConfigs string
  | Patch_DeploymentConfig string string PatchType payload
  | Delete_DeploymentConfig string string
  | List_MachineSets string
  | Patch_MachineSet string string PatchType payload

type_synonym log = "(call \<times> error option) list"

record proc =
  out :: "written list"
  calls :: log

definition start :: proc where
  "start = \<lparr>out = [], calls = []\<rparr>"

definition emit :: "written \<Rightarrow> proc \<Rightarrow> proc" where
  "emit w p = p\<lparr>out := out p @ [w]\<rparr>"

section \<open>The Pod watcher\<close>

text \<open>
  The inner loop of \<^verbatim>\<open>main\<close> (lines 54 to 58): one \<^verbatim>\<open>Printf\<close> for each container
  status whose \<^verbatim>\<open>State.Waiting\<close> is not \<^verbatim>\<open>nil\<close> and has the reason
  \<^verbatim>\<open>"CrashLoopBackOff"\<close>. The conjunction of the source is short-circuit: the reason is read
  only under a non-nil pointer.
\<close>

primrec range_ContainerStatuses :: "Pod \<Rightarrow> ContainerStatus list \<Rightarrow> written list" where
  "range_ContainerStatuses pod [] = []"
| "range_ContainerStatuses pod (c # cs) =
     (if (case Waiting (State c) of None \<Rightarrow> False
          | Some w \<Rightarrow> Reason w = ''CrashLoopBackOff'')
      then [Printf ''PodName: %s, Namespace: %s, Phase: %s\<newline>''
              [S (Name (Pod_ObjectMeta pod)), S (Namespace (Pod_ObjectMeta pod)),
               S (Phase (Pod_Status pod))]]
      else [])
     @ range_ContainerStatuses pod cs"

text \<open>The body of the outer loop (lines 50 to 58): the type assertion, then the inner loop.\<close>

definition process_event :: "Event \<Rightarrow> written list" where
  "process_event event =
     (case Object event of
        OtherObject k \<Rightarrow> []
      | PodObject pod \<Rightarrow> range_ContainerStatuses pod (ContainerStatuses (Pod_Status pod)))"

text \<open>
  The result channel of a watch is read by position: \<open>ch i\<close> is the event received at the
  \<open>i\<close>-th receive, and \<open>None\<close> says that the producer has closed the channel. A channel that
  is never closed keeps the loop running for ever, which is the value \<open>None\<close> of the loop.
  The loop returns the number of events it has received and the state of the process.
\<close>

type_synonym ResultChan = "nat \<Rightarrow> Event option"

partial_function (option) range_ResultChan :: "ResultChan \<Rightarrow> nat \<Rightarrow> proc \<Rightarrow> (nat \<times> proc) option" where
  "range_ResultChan ch i p =
     (case ch i of
        None \<Rightarrow> Some (i, p)
      | Some event \<Rightarrow> range_ResultChan ch (Suc i) (p\<lparr>out := out p @ process_event event\<rparr>))"

text \<open>The channel on which the producer sends the events \<open>es\<close> and which it then closes.\<close>

definition closed_after :: "Event list \<Rightarrow> ResultChan" where
  "closed_after es i = (if i < length es then Some (es ! i) else None)"

section \<open>Programs\<close>

text \<open>
  A function of the programs takes the state of the process and returns it updated, with
  the way the function ends: it returns a value, or the process exits with a status
  (\<^verbatim>\<open>os.Exit\<close>, \<^verbatim>\<open>log.Fatal\<close>), or it panics. No function recovers from a panic, so a
  panic ends the process, with exit status 2. When \<^verbatim>\<open>main\<close> returns, the status is 0.
\<close>

datatype 'a outcome = Returned 'a | Exit nat | Panicked

type_synonym 'a prog = "proc \<Rightarrow> 'a outcome \<times> proc"

fun exit_status :: "'a outcome \<Rightarrow> nat" where
  "exit_status (Returned v) = 0"
| "exit_status (Exit n) = n"
| "exit_status Panicked = 2"

definition return :: "'a \<Rightarrow> 'a prog" where
  "return v p = (Returned v, p)"

definition bind :: "'a prog \<Rightarrow> ('a \<Rightarrow> 'b prog) \<Rightarrow> 'b prog" where
  "bind m f p =
     (case m p of
        (Returned v, p') \<Rightarrow> f v p'
      | (Exit n, p') \<Rightarrow> (Exit n, p')
      | (Panicked, p') \<Rightarrow> (Panicked, p'))"

definition fmt_Printf :: "string \<Rightarrow> arg list \<Rightarrow> unit prog" where
  "fmt_Printf f args p = (Returned (), emit (Printf f args) p)"

definition fmt_Println :: "arg list \<Rightarrow> unit prog" where
  "fmt_Println args p = (Returned (), emit (Println args) p)"

definition os_Exit :: "nat \<Rightarrow> 'a prog" where
  "os_Exit n p = (Exit n, p)"

definition log_Fatal :: "arg list \<Rightarrow> 'a prog" where
  "log_Fatal args p = (Exit 1, emit (Log_Fatal args) p)"

definition panic :: "arg \<Rightarrow> 'a prog" where
  "panic a p = (Panicked, emit (Panic_report a) p)"

text \<open>
  A call that leaves the program: its result may depend on every call made so far, and the
  call is logged. \<open>extern\<close> is a call that returns a value and an error, \<open>extern_err\<close> one
  that returns an error only.
\<close>

definition extern :: "call \<Rightarrow> (log \<Rightarrow> error + 'a) \<Rightarrow> (error + 'a) prog" where
  "extern c f p =
     (let r = f (calls p)
      in (Returned r, p\<lparr>calls := calls p @ [(c, case r of Inl err \<Rightarrow> Some err | Inr v \<Rightarrow> None)]\<rparr>))"

definition extern_err :: "call \<Rightarrow> (log \<Rightarrow> error option) \<Rightarrow> (error option) prog" where
  "extern_err c f p = (let r = f (calls p) in (Returned r, p\<lparr>calls := calls p @ [(c, r)]\<rparr>))"

subsection \<open>The environment and the clients\<close>

text \<open>
  The operating system and the client libraries are parameters of the programs. A client
  is the record of the API methods the programs call; each takes the log of the calls made
  before it.
\<close>

record 'c env =
  UserHomeDir :: "error + string"
  filepath_Join :: "string list \<Rightarrow> string"
  BuildConfigFromFlags :: "string \<Rightarrow> string \<Rightarrow> error + Config"
  NewForConfig :: "Config \<Rightarrow> error + 'c"

record Clientset =
  Pods_Watch :: "log \<Rightarrow> string \<Rightarrow> string \<Rightarrow> error + ResultChan"
  Deployments_Create :: "log \<Rightarrow> string \<Rightarrow> Deployment \<Rightarrow> error + Deployment"
  Deployments_Get :: "log \<Rightarrow> string \<Rightarrow> string \<Rightarrow> error + Deployment"
  Deployments_List :: "log \<Rightarrow> string \<Rightarrow> error + DeploymentList"
  Deployments_Patch :: "log \<Rightarrow> string \<Rightarrow> string \<Rightarrow> PatchType \<Rightarrow> payload \<Rightarrow> error + Deployment"
  Deployments_GetScale :: "log \<Rightarrow> string \<Rightarrow> string \<Rightarrow> error + Scale"
  Deployments_UpdateScale :: "log \<Rightarrow> string \<Rightarrow> string \<Rightarrow> Scale \<Rightarrow> error + Scale"
  Deployments_Delete :: "log \<Rightarrow> string \<Rightarrow> string \<Rightarrow> error option"

record AppsV1Client =
  DeploymentConfigs_Create :: "log \<Rightarrow> string \<Rightarrow> DeploymentConfig \<Rightarrow> error + DeploymentConfig"
  DeploymentConfigs_List :: "log \<Rightarrow> string \<Rightarrow> error + DeploymentConfigList"
  DeploymentConfigs_Patch :: "log \<Rightarrow> string \<Rightarrow> string \<Rightarrow> PatchType \<Rightarrow> payload \<Rightarrow> error + DeploymentConfig"
  DeploymentConfigs_Delete :: "log \<Rightarrow> string \<Rightarrow> string \<Rightarrow> error option"

record MachineV1beta1Client =
  MachineSets_List :: "log \<Rightarrow> string \<Rightarrow> error + MachineSetList"
  MachineSets_Patch :: "log \<Rightarrow> string \<Rightarrow> string \<Rightarrow> PatchType \<Rightarrow> payload \<Rightarrow> error + MachineSet"

record K8sClient =
  Client :: Clientset

subsection \<open>The watcher's \<^verbatim>\<open>main\<close>\<close>

text \<open>
  Lines 16 to 47: the set-up and the watch request. The result is the channel to range
  over, or \<open>None\<close> when \<^verbatim>\<open>main\<close> returns at line 46.
\<close>

definition main_until_loop :: "Clientset env \<Rightarrow> ResultChan option prog" where
  "main_until_loop e =
     bind (extern os_UserHomeDir (\<lambda>h. UserHomeDir e)) (\<lambda>r.
     case r of
       Inl err \<Rightarrow>
         bind (fmt_Printf ''error getting user home dir: %v\<newline>'' [V err]) (\<lambda>_. os_Exit 1)
     | Inr userHomeDir \<Rightarrow>
         (let kubeConfigPath = filepath_Join e [userHomeDir, ''.kube'', ''config'']
          in bind (fmt_Printf ''Using kubeconfig: %s\<newline>'' [S kubeConfigPath]) (\<lambda>_.
             bind (extern (clientcmd_BuildConfigFromFlags '''' kubeConfigPath)
                     (\<lambda>h. BuildConfigFromFlags e '''' kubeConfigPath)) (\<lambda>r.
             case r of
               Inl err \<Rightarrow>
                 bind (fmt_Printf ''Error getting kubernetes config: %v\<newline>'' [V err])
                   (\<lambda>_. os_Exit 1)
             | Inr kubeConfig \<Rightarrow>
                 bind (extern (NewForConfig_call kubeConfig) (\<lambda>h. NewForConfig e kubeConfig)) (\<lambda>r.
                 case r of
                   Inl err \<Rightarrow>
                     bind (fmt_Printf ''error getting kubernetes config: %v\<newline>'' [V err])
                       (\<lambda>_. os_Exit 1)
                 | Inr client \<Rightarrow>
                     (let namespace = ''''
                      in bind (fmt_Println [S ''Watch Kubernetes Pods in CrashLoopBackOff state''])
                           (\<lambda>_.
                         bind (extern (Watch_Pods namespace '''')
                                 (\<lambda>h. Pods_Watch client h namespace '''')) (\<lambda>r.
                         case r of
                           Inl err \<Rightarrow>
                             bind (fmt_Printf ''error create pod watcher: %v\<newline>'' [V err])
                               (\<lambda>_. return None)
                         | Inr watcher \<Rightarrow> return (Some watcher)))))))))"

text \<open>
  The whole of \<^verbatim>\<open>main\<close>: the value is \<open>None\<close> when the loop over the result channel
  never ends.
\<close>

definition main_watcher :: "Clientset env \<Rightarrow> (unit outcome \<times> proc) option" where
  "main_watcher e =
     (case main_until_loop e start of
        (Returned (Some watcher), p) \<Rightarrow>
          (case range_ResultChan watcher 0 p of
             None \<Rightarrow> None
           | Some (n, p') \<Rightarrow> Some (Returned (), p'))
      | (Returned None, p) \<Rightarrow> Some (Returned (), p)
      | (Exit n, p) \<Rightarrow> Some (Exit n, p)
      | (Panicked, p) \<Rightarrow> Some (Panicked, p))"

subsection \<open>The Deployment utility\<close>

text \<open>
  \<^verbatim>\<open>log.Fatal(err.Error)\<close> passes the method value, not its result: the operand of the
  line is a function.
\<close>

definition getK8sClient :: "Clientset env \<Rightarrow> K8sClient prog" where
  "getK8sClient e =
     bind (extern os_UserHomeDir (\<lambda>h. UserHomeDir e)) (\<lambda>r.
     case r of
       Inl err \<Rightarrow>
         bind (fmt_Printf ''error getting user home dir: %v\<newline>'' [V err]) (\<lambda>_. os_Exit 1)
     | Inr userHomeDir \<Rightarrow>
         (let kubeConfigPath = filepath_Join e [userHomeDir, ''.kube'', ''config'']
          in bind (fmt_Printf ''Using kubeconfig: %s\<newline>'' [S kubeConfigPath]) (\<lambda>_.
             bind (extern (clientcmd_BuildConfigFromFlags '''' kubeConfigPath)
                     (\<lambda>h. BuildConfigFromFlags e '''' kubeConfigPath)) (\<lambda>r.
             case r of
               Inl err \<Rightarrow>
                 (let err = Errorf ''Error getting kubernetes config: %v\<newline>'' err
                  in log_Fatal [Method_value])
             | Inr kubeConfig \<Rightarrow>
                 bind (extern (NewForConfig_call kubeConfig) (\<lambda>h. NewForConfig e kubeConfig)) (\<lambda>r.
                 case r of
                   Inl err \<Rightarrow>
                     (let err = Errorf ''error getting kubernetes config: %v\<newline>'' err
                      in log_Fatal [Method_value])
                 | Inr client \<Rightarrow>
                     bind (fmt_Printf ''%T\<newline>'' [Client_value ''*kubernetes.Clientset''])
                       (\<lambda>_. return \<lparr>Client = client\<rparr>))))))"

definition CreateDeployment ::
  "K8sClient \<Rightarrow> string \<Rightarrow> string \<Rightarrow> string \<Rightarrow> int32 \<Rightarrow> (error option) prog" where
  "CreateDeployment c name namespace image' replicas =
     (let deploymentObject =
        \<lparr>Deployment_ObjectMeta = \<lparr>Name = name, Namespace = '''', Labels = Map.empty\<rparr>,
         Deployment_Spec =
           \<lparr>Replicas = Some replicas,
            Selector = Some \<lparr>MatchLabels = [''app'' \<mapsto> name]\<rparr>,
            Template =
              \<lparr>Template_ObjectMeta = \<lparr>Name = '''', Namespace = '''', Labels = [''app'' \<mapsto> name]\<rparr>,
               Template_Spec =
                 \<lparr>Containers =
                    [\<lparr>Container_Name = ''web'', Image = image',
                      Ports = [\<lparr>ContainerPort_Name = ''http'', Protocol = ''TCP'',
                                ContainerPort = 80\<rparr>]\<rparr>]\<rparr>\<rparr>\<rparr>\<rparr>
      in bind (fmt_Println [S ''Creating deployment...'']) (\<lambda>_.
         bind (extern (Create_Deployment namespace deploymentObject)
                 (\<lambda>h. Deployments_Create (Client c) h namespace deploymentObject)) (\<lambda>r.
         case r of
           Inl err \<Rightarrow> return (Some err)
         | Inr result \<Rightarrow>
             bind (fmt_Printf ''Created deployment %q.\<newline>''
                     [S (Name (Deployment_ObjectMeta result))])
               (\<lambda>_. return None))))"

definition GetDeployment :: "K8sClient \<Rightarrow> string \<Rightarrow> string \<Rightarrow> (error + Deployment) prog" where
  "GetDeployment c name namespace =
     bind (fmt_Println [S ''Get Deployment in namespace'', S namespace]) (\<lambda>_.
     bind (extern (Get_Deployment namespace name)
             (\<lambda>h. Deployments_Get (Client c) h namespace name)) (\<lambda>r.
     case r of
       Inl err \<Rightarrow>
         bind (fmt_Printf ''Failed to getting Deployment: %v\<newline>'' [V err])
           (\<lambda>_. return (Inl err))
     | Inr result \<Rightarrow> return (Inr result)))"

definition ListDeployment :: "K8sClient \<Rightarrow> string \<Rightarrow> (error + DeploymentList) prog" where
  "ListDeployment c namespace =
     bind (fmt_Println [S ''List Deployments'']) (\<lambda>_.
     bind (extern (List_Deployments namespace)
             (\<lambda>h. Deployments_List (Client c) h namespace)) (\<lambda>r.
     case r of
       Inl err \<Rightarrow>
         bind (fmt_Printf ''error listing deployments: %v\<newline>'' [V err])
           (\<lambda>_. return (Inl err))
     | Inr deployments \<Rightarrow> return (Inr deployments)))"

definition UpdateDeployment :: "K8sClient \<Rightarrow> string \<Rightarrow> string \<Rightarrow> string \<Rightarrow> unit prog" where
  "UpdateDeployment c name namespace image' =
     bind (fmt_Printf ''Updating Deployment `%s` in namespace `%s`\<newline>'' [S name, S namespace])
       (\<lambda>_.
     let payload = [\<lparr>stringPatch_Op = ''replace'',
                     stringPatch_Path = ''/spec/template/spec/containers/0/image'',
                     stringPatch_Value = image'\<rparr>];
         payloadBytes = json_stringPatches payload
     in bind (extern (Patch_Deployment namespace name JSONPatchType payloadBytes)
                (\<lambda>h. Deployments_Patch (Client c) h namespace name JSONPatchType payloadBytes))
          (\<lambda>r.
        case r of
          Inl err \<Rightarrow>
            (let err = Errorf ''[x] Error Update Deployment Image: %v\<newline>'' err
             in panic (V err))
        | Inr _ \<Rightarrow>
            fmt_Printf ''Successfully update image for Deployment to %s\<newline>'' [S name]))"

text \<open>
  \<^verbatim>\<open>sd := *scaleObj\<close> copies the scale object; the comparisons are those of
  \<^verbatim>\<open>int32\<close>, so signed.
\<close>

definition ScaleDeployment :: "K8sClient \<Rightarrow> string \<Rightarrow> string \<Rightarrow> int32 \<Rightarrow> unit prog" where
  "ScaleDeployment c name namespace replica =
     bind (extern (GetScale_Deployment namespace name)
             (\<lambda>h. Deployments_GetScale (Client c) h namespace name)) (\<lambda>r.
     case r of
       Inl err \<Rightarrow>
         bind (fmt_Printf ''error getting scale object: %v\<newline>'' [V err]) (\<lambda>_. os_Exit 1)
     | Inr scaleObj \<Rightarrow>
         (let sd = scaleObj
          in if Scale_Replicas (Scale_Spec sd) = replica \<or> sint replica < 0
             then fmt_Printf ''Deployment %s replicas %d, no changes applied\<newline>''
                    [S name, D (sint replica)]
             else
               bind (if sint replica < sint (Scale_Replicas (Scale_Spec sd))
                     then fmt_Printf ''Scale down Deployment %s from %d to %d replicas\<newline>''
                            [S name, D (sint (Scale_Replicas (Scale_Spec sd))), D (sint replica)]
                     else fmt_Printf ''Scale Up Deployment %s from %d to %d replicas\<newline>''
                            [S name, D (sint (Scale_Replicas (Scale_Spec sd))), D (sint replica)])
                 (\<lambda>_.
               let sd = sd\<lparr>Scale_Spec := (Scale_Spec sd)\<lparr>Scale_Replicas := replica\<rparr>\<rparr>
               in bind (extern (UpdateScale_Deployment namespace name sd)
                          (\<lambda>h. Deployments_UpdateScale (Client c) h namespace name sd)) (\<lambda>r.
                  case r of
                    Inl err \<Rightarrow>
                      bind (fmt_Printf ''error updating scale object: %v\<newline>'' [V err])
                        (\<lambda>_. os_Exit 1)
                  | Inr scaleDeployment \<Rightarrow>
                      fmt_Printf ''Successfully scaled deployment %s to %d replicas''
                        [S name, D (sint (Scale_Replicas (Scale_Spec scaleDeployment)))]))))"

definition DeleteDeployment :: "K8sClient \<Rightarrow> string \<Rightarrow> string \<Rightarrow> (error option) prog" where
  "DeleteDeployment c name namespace =
     bind (fmt_Printf ''Deleting Deployment `%s` in namespace `%s`\<newline>'' [S name, S namespace])
       (\<lambda>_.
     bind (extern_err (Delete_Deployment namespace name)
             (\<lambda>h. Deployments_Delete (Client c) h namespace name)) (\<lambda>r.
     case r of
       Some err \<Rightarrow>
         (let err = Errorf ''[x] error deleting Deployment: %v\<newline>'' err
          in return (Some err))
     | None \<Rightarrow>
         bind (fmt_Printf ''Successfully deleted Deployment %s\<newline>'' [S name])
           (\<lambda>_. return None)))"

text \<open>The loop of \<^verbatim>\<open>main\<close> over the listed Deployments prints each name.\<close>

primrec range_Deployments :: "Deployment list \<Rightarrow> unit prog" where
  "range_Deployments [] = return ()"
| "range_Deployments (d # ds) =
     bind (fmt_Printf ''%s\<newline>'' [S (Name (Deployment_ObjectMeta d))])
       (\<lambda>_. range_Deployments ds)"

text \<open>
  \<^verbatim>\<open>main\<close> of the Deployment utility, statement by statement. (Lines 76 and 91 declare
  with \<^verbatim>\<open>:=\<close> variables that exist already, which the Go compiler rejects; they are read
  as the assignments they stand for, the list going to a variable of its own type.)
\<close>

definition main_deployments :: "Clientset env \<Rightarrow> unit prog" where
  "main_deployments e =
     bind (getK8sClient e) (\<lambda>client.
     let deploymentName = ''''; namespace = ''''; image' = ''docker.io/httpd:latest''
     in bind (CreateDeployment client deploymentName namespace image' 1) (\<lambda>err.
        case err of
          Some err \<Rightarrow> log_Fatal [V err]
        | None \<Rightarrow>
            bind (GetDeployment client deploymentName namespace) (\<lambda>r.
            case r of
              Inl err \<Rightarrow> log_Fatal [V err]
            | Inr deployment \<Rightarrow>
                bind (fmt_Printf ''%v\<newline>'' [V_Deployment deployment]) (\<lambda>_.
                bind (ListDeployment client namespace) (\<lambda>r.
                case r of
                  Inl err \<Rightarrow> log_Fatal [V err]
                | Inr deployment \<Rightarrow>
                    bind (range_Deployments (Items deployment)) (\<lambda>_.
                    bind (UpdateDeployment client deploymentName namespace
                            ''docker.io/nginx:latest'') (\<lambda>_.
                    bind (ScaleDeployment client deploymentName namespace 1) (\<lambda>_.
                    bind (DeleteDeployment client deploymentName namespace) (\<lambda>err.
                    case err of
                      Some err \<Rightarrow> log_Fatal [V err]
                    | None \<Rightarrow> return ())))))))))"

subsection \<open>The DeploymentConfig utility\<close>

definition CreateDeploymentConfig ::
  "string \<Rightarrow> string \<Rightarrow> string \<Rightarrow> int32 \<Rightarrow> AppsV1Client \<Rightarrow> (error option) prog" where
  "CreateDeploymentConfig name namespace image' replicas client =
     bind (fmt_Printf ''Creating new DeploymentConfig `%s` in namespace `%s`\<newline>''
             [S name, S namespace]) (\<lambda>_.
     let dc =
        \<lparr>DC_ObjectMeta = \<lparr>Name = name, Namespace = '''', Labels = Map.empty\<rparr>,
         DC_Spec =
           \<lparr>DC_Replicas = replicas,
            DC_Selector = [''app'' \<mapsto> name],
            DC_Template = Some
              \<lparr>Template_ObjectMeta = \<lparr>Name = '''', Namespace = '''', Labels = [''app'' \<mapsto> name]\<rparr>,
               Template_Spec =
                 \<lparr>Containers =
                    [\<lparr>Container_Name = name, Image = image',
                      Ports = [\<lparr>ContainerPort_Name = '''', Protocol = ''TCP'',
                                ContainerPort = 8080\<rparr>]\<rparr>]\<rparr>\<rparr>,
            Triggers = [\<lparr>Trigger_Type = ''ConfigChange''\<rparr>]\<rparr>\<rparr>
     in bind (extern (Create_DeploymentConfig namespace dc)
                (\<lambda>h. DeploymentConfigs_Create client h namespace dc)) (\<lambda>r.
        case r of
          Inl err \<Rightarrow>
            (let err = Errorf ''[x] Error creating DC: %v\<newline>'' err
             in return (Some err))
        | Inr dcObj \<Rightarrow>
            bind (fmt_Printf
                    ''Successfully created deploymentconfig to `%s` in namespace `%s`\<newline>''
                    [S (Name (DC_ObjectMeta dcObj)), S namespace])
              (\<lambda>_. return None)))"

definition ListDeploymentConfigs ::
  "string \<Rightarrow> AppsV1Client \<Rightarrow> (error + DeploymentConfigList) prog" where
  "ListDeploymentConfigs namespace client =
     bind (fmt_Printf ''Listing DeploymentConifgs in namespace `%s`\<newline>'' [S namespace]) (\<lambda>_.
     bind (extern (List_DeploymentConfigs namespace)
             (\<lambda>h. DeploymentConfigs_List client h namespace)) (\<lambda>r.
     case r of
       Inl err \<Rightarrow>
         (let err = Errorf ''[x] error listing RC/DC: %v\<newline>'' err
          in return (Inl err))
     | Inr deploymentConfigs \<Rightarrow> return (Inr deploymentConfigs)))"

text \<open>\<^verbatim>\<open>uint32(scale)\<close> keeps the low 32 bits of the \<^verbatim>\<open>int\<close>.\<close>

definition ScaleDeploymentConfig ::
  "string \<Rightarrow> string \<Rightarrow> go_int \<Rightarrow> AppsV1Client \<Rightarrow> unit prog" where
  "ScaleDeploymentConfig name namespace scale client =
     bind (fmt_Printf ''Scaling DeploymentConfig `%s` in namespace `%s`\<newline>''
             [S name, S namespace]) (\<lambda>_.
     let replicas = (ucast scale :: uint32);
         payload = [\<lparr>integerPatch_Op = ''replace'', integerPatch_Path = ''/spec/replicas'',
                     integerPatch_Value = replicas\<rparr>];
         payloadBytes = json_integerPatches payload
     in bind (extern (Patch_DeploymentConfig namespace name JSONPatchType payloadBytes)
                (\<lambda>h. DeploymentConfigs_Patch client h namespace name JSONPatchType payloadBytes))
          (\<lambda>r.
        case r of
          Inl err \<Rightarrow>
            (let err = Errorf ''[x] Error Scaling DC Image: %v\<newline>'' err
             in panic (V err))
        | Inr _ \<Rightarrow>
            fmt_Printf ''Successfully scaled deploymentconfig to %d replicas\<newline>''
              [D (uint replicas)]))"

definition UpdateDeploymentConfigImage ::
  "string \<Rightarrow> string \<Rightarrow> string \<Rightarrow> AppsV1Client \<Rightarrow> unit prog" where
  "UpdateDeploymentConfigImage name namespace image' client =
     bind (fmt_Printf ''Updating DeploymentConfig `%s` in namespace `%s`\<newline>''
             [S name, S namespace]) (\<lambda>_.
     let payload = [\<lparr>stringPatch_Op = ''replace'',
                     stringPatch_Path = ''/spec/template/spec/containers/0/image'',
                     stringPatch_Value = image'\<rparr>];
         payloadBytes = json_stringPatches payload
     in bind (extern (Patch_DeploymentConfig namespace name JSONPatchType payloadBytes)
                (\<lambda>h. DeploymentConfigs_Patch client h namespace name JSONPatchType payloadBytes))
          (\<lambda>r.
        case r of
          Inl err \<Rightarrow>
            (let err = Errorf ''[x] Error Update DC Image: %v\<newline>'' err
             in panic (V err))
        | Inr _ \<Rightarrow>
            fmt_Printf ''Successfully update image for deploymentconfig to %s\<newline>'' [S name]))"

definition DeleteDeploymentConfig ::
  "string \<Rightarrow> string \<Rightarrow> AppsV1Client \<Rightarrow> (error option) prog" where
  "DeleteDeploymentConfig name namespace client =
     bind (fmt_Printf ''Deleting DeploymentConfig `%s` in namespace `%s`\<newline>''
             [S name, S namespace]) (\<lambda>_.
     bind (extern_err (Delete_DeploymentConfig namespace name)
             (\<lambda>h. DeploymentConfigs_Delete client h namespace name)) (\<lambda>r.
     case r of
       Some err \<Rightarrow>
         (let err = Errorf ''[x] error deleting DC: %v\<newline>'' err
          in return (Some err))
     | None \<Rightarrow>
         bind (fmt_Printf ''Successfully deleted deploymentconfig %s\<newline>'' [S name])
           (\<lambda>_. return None)))"

primrec range_DeploymentConfigs :: "DeploymentConfig list \<Rightarrow> unit prog" where
  "range_DeploymentConfigs [] = return ()"
| "range_DeploymentConfigs (d # ds) =
     bind (fmt_Printf ''%s\<newline>'' [S (Name (DC_ObjectMeta d))])
       (\<lambda>_. range_DeploymentConfigs ds)"

text \<open>
  \<^verbatim>\<open>main\<close> of the DeploymentConfig utility. The type of the client is printed before
  the error of its constructor is looked at.
\<close>

definition main_deploymentconfigs :: "AppsV1Client env \<Rightarrow> unit prog" where
  "main_deploymentconfigs e =
     bind (extern os_UserHomeDir (\<lambda>h. UserHomeDir e)) (\<lambda>r.
     case r of
       Inl err \<Rightarrow>
         bind (fmt_Printf ''error getting user home dir: %v\<newline>'' [V err]) (\<lambda>_. os_Exit 1)
     | Inr userHomeDir \<Rightarrow>
         (let kubeConfigPath = filepath_Join e [userHomeDir, ''.kube'', ''config'']
          in bind (fmt_Printf ''Using kubeconfig: %s\<newline>'' [S kubeConfigPath]) (\<lambda>_.
             bind (extern (clientcmd_BuildConfigFromFlags '''' kubeConfigPath)
                     (\<lambda>h. BuildConfigFromFlags e '''' kubeConfigPath)) (\<lambda>r.
             case r of
               Inl err \<Rightarrow>
                 (let err = Errorf ''Error getting kubernetes config: %v\<newline>'' err
                  in log_Fatal [Method_value])
             | Inr kubeConfig \<Rightarrow>
                 bind (extern (NewForConfig_call kubeConfig) (\<lambda>h. NewForConfig e kubeConfig)) (\<lambda>r.
                 bind (fmt_Printf ''%T\<newline>'' [Client_value ''*v1.AppsV1Client'']) (\<lambda>_.
                 case r of
                   Inl err \<Rightarrow>
                     (let err = Errorf ''error getting kubernetes config: %v\<newline>'' err
                      in log_Fatal [Method_value])
                 | Inr client \<Rightarrow>
                     (let deploymentName = ''my-deployment''; namespace = ''my-namespace'';
                          image' = ''docker.io/httpd:latest''
                      in bind (CreateDeploymentConfig deploymentName namespace image' 1 client)
                           (\<lambda>err.
                         case err of
                           Some err \<Rightarrow> log_Fatal [V err]
                         | None \<Rightarrow>
                             bind (ListDeploymentConfigs namespace client) (\<lambda>r.
                             case r of
                               Inl err \<Rightarrow> log_Fatal [V err]
                             | Inr deploymentConfigs \<Rightarrow>
                                 bind (range_DeploymentConfigs (DC_Items deploymentConfigs)) (\<lambda>_.
                                 bind (UpdateDeploymentConfigImage deploymentName namespace
                                         ''docker.io/nginx:latest'' client) (\<lambda>_.
                                 bind (ScaleDeploymentConfig deploymentName namespace 1 client)
                                   (\<lambda>_.
                                 bind (DeleteDeploymentConfig deploymentName namespace client)
                                   (\<lambda>err.
                                 case err of
                                   Some err \<Rightarrow> log_Fatal [V err]
                                 | None \<Rightarrow> return ())))))))))))))"

subsection \<open>The MachineSet utility\<close>

text \<open>The loop of \<^verbatim>\<open>main\<close> (lines 65 to 75): one patch request for each MachineSet.\<close>

primrec range_MachineSets :: "MachineV1beta1Client \<Rightarrow> payload \<Rightarrow> MachineSet list \<Rightarrow> unit prog" where
  "range_MachineSets client payloadBytes [] = return ()"
| "range_MachineSets client payloadBytes (ms # mss) =
     bind (fmt_Printf ''%+v\<newline>'' [S (Name (MachineSet_ObjectMeta ms))]) (\<lambda>_.
     bind (extern (Patch_MachineSet (Namespace (MachineSet_ObjectMeta ms))
                     (Name (MachineSet_ObjectMeta ms)) JSONPatchType payloadBytes)
             (\<lambda>h. MachineSets_Patch client h (Namespace (MachineSet_ObjectMeta ms))
                     (Name (MachineSet_ObjectMeta ms)) JSONPatchType payloadBytes)) (\<lambda>r.
     case r of
       Inl err \<Rightarrow>
         (let err = Errorf ''[x] Err Updating Scale for MachineSet: %v\<newline>'' err
          in panic (V err))
     | Inr _ \<Rightarrow>
         bind (fmt_Printf ''Updated scale for Machine Set: %s\<newline>''
                 [S (Name (MachineSet_ObjectMeta ms))])
           (\<lambda>_. range_MachineSets client payloadBytes mss)))"

definition main_machinesets :: "MachineV1beta1Client env \<Rightarrow> unit prog" where
  "main_machinesets e =
     bind (extern os_UserHomeDir (\<lambda>h. UserHomeDir e)) (\<lambda>r.
     case r of
       Inl err \<Rightarrow>
         bind (fmt_Printf ''error getting user home dir: %v\<newline>'' [V err]) (\<lambda>_. os_Exit 1)
     | Inr userHomeDir \<Rightarrow>
         (let kubeConfigPath = filepath_Join e [userHomeDir, ''.kube'', ''config'']
          in bind (fmt_Printf ''Using kubeconfig: %s\<newline>'' [S kubeConfigPath]) (\<lambda>_.
             bind (extern (clientcmd_BuildConfigFromFlags '''' kubeConfigPath)
                     (\<lambda>h. BuildConfigFromFlags e '''' kubeConfigPath)) (\<lambda>r.
             case r of
               Inl err \<Rightarrow>
                 (let err = Errorf ''Error getting kubernetes config: %v\<newline>'' err
                  in log_Fatal [Method_value])
             | Inr kubeConfig \<Rightarrow>
                 bind (extern (NewForConfig_call kubeConfig) (\<lambda>h. NewForConfig e kubeConfig)) (\<lambda>r.
                 bind (fmt_Printf ''%T\<newline>'' [Client_value ''*v1beta1.MachineV1beta1Client''])
                   (\<lambda>_.
                 case r of
                   Inl err \<Rightarrow>
                     (let err = Errorf ''error getting kubernetes config: %v\<newline>'' err
                      in log_Fatal [Method_value])
                 | Inr client \<Rightarrow>
                     bind (extern (List_MachineSets '''') (\<lambda>h. MachineSets_List client h ''''))
                       (\<lambda>r.
                     case r of
                       Inl err \<Rightarrow>
                         (if IsNotFound err
                          then bind (fmt_Printf ''No Machinesets found in namespace\<newline>'' [])
                                 (\<lambda>_. os_Exit 0)
                          else panic (Error_text err))
                     | Inr machineSetList \<Rightarrow>
                         (let replicas = (2 :: uint32);
                              payload = [\<lparr>integerPatch_Op = ''replace'',
                                          integerPatch_Path = ''/spec/replicas'',
                                          integerPatch_Value = replicas\<rparr>];
                              payloadBytes = json_integerPatches payload
                          in bind (fmt_Printf ''There are %d Machinesets in the namespace\<newline>''
                                     [D (int (length (MachineSet_Items machineSetList)))]) (\<lambda>_.
                             range_MachineSets client payloadBytes
                               (MachineSet_Items machineSetList))))))))))"

section \<open>Failures of calls\<close>

text \<open>
  A state of the process is \<open>clean\<close> when every call logged so far has succeeded, and
  \<open>failed_at c err\<close> when its last call is \<open>c\<close>, which failed with \<open>err\<close>, every call before
  it having succeeded.
\<close>

definition clean :: "proc \<Rightarrow> bool" where
  "clean p = list_all (\<lambda>x. snd x = None) (calls p)"

definition failed_at :: "call \<Rightarrow> error \<Rightarrow> proc \<Rightarrow> bool" where
  "failed_at c err p =
     (case rev (calls p) of
        [] \<Rightarrow> False
      | x # before \<Rightarrow> x = (c, Some err) \<and> list_all (\<lambda>x. snd x = None) before)"

text \<open>
  An error value carries the error \<open>err\<close> when it is \<open>err\<close> itself or was built from it by
  \<^verbatim>\<open>fmt.Errorf\<close>, so that its text holds the text of \<open>err\<close>. An operand shows \<open>err\<close>
  when it is an error value that carries it, or the text of one; the method value
  \<^verbatim>\<open>err.Error\<close> shows no error.
\<close>

primrec carries :: "error \<Rightarrow> error \<Rightarrow> bool" where
  "carries err (Library_error nf msg) = (Library_error nf msg = err)"
| "carries err (Errorf f e) = (Errorf f e = err \<or> carries err e)"

fun shows_error :: "error \<Rightarrow> arg \<Rightarrow> bool" where
  "shows_error err (V e) = carries err e"
| "shows_error err (Error_text e) = carries err e"
| "shows_error err a = False"

text \<open>
  A written item reports the error \<open>err\<close> when it is a \<^verbatim>\<open>Printf\<close>, a \<^verbatim>\<open>Println\<close> or a
  line of \<^verbatim>\<open>log.Fatal\<close> with an operand that shows \<open>err\<close>, or the report of a panic whose
  value shows \<open>err\<close>.
\<close>

fun is_report :: "error \<Rightarrow> written \<Rightarrow> bool" where
  "is_report err (Printf f args) = list_ex (shows_error err) args"
| "is_report err (Println args) = list_ex (shows_error err) args"
| "is_report err (Log_Fatal args) = list_ex (shows_error err) args"
| "is_report err (Panic_report a) = shows_error err a"

fun is_Log_Fatal :: "written \<Rightarrow> bool" where
  "is_Log_Fatal (Log_Fatal args) = True"
| "is_Log_Fatal w = False"

text \<open>
  What a program promises for the failure of a call: a property of the exit status of the
  process and of what it has written. \<open>fatal\<close> is the promise of a status other than 0
  with a report of the failing error written last; \<open>fatal_line\<close> promises a status other
  than 0 with a line of \<^verbatim>\<open>log.Fatal\<close> written last, and says nothing of what the line
  holds.
\<close>

type_synonym promise = "call \<Rightarrow> error \<Rightarrow> nat \<Rightarrow> written list \<Rightarrow> bool"

definition fatal :: promise where
  "fatal c err st ws = (st \<noteq> 0 \<and> ws \<noteq> [] \<and> is_report err (last ws))"

definition fatal_line :: promise where
  "fatal_line c err st ws = (st \<noteq> 0 \<and> ws \<noteq> [] \<and> is_Log_Fatal (last ws))"

text \<open>
  A run stops at its first failure: either no call has failed, or the last call of the run
  is the only one that failed, and the promise for it holds of the run.
\<close>

definition fail_stop :: "promise \<Rightarrow> 'a outcome \<times> proc \<Rightarrow> bool" where
  "fail_stop pr r =
     (clean (snd r) \<or>
      (\<exists>c err. failed_at c err (snd r) \<and> pr c err (exit_status (fst r)) (out (snd r))))"

text \<open>
  The Deployment and the DeploymentConfig utility: every failure is fatal, with a report of
  the error; for the loading of the configuration and the construction of the client,
  whose handlers pass \<^verbatim>\<open>err.Error\<close> to \<^verbatim>\<open>log.Fatal\<close>, only the line of \<^verbatim>\<open>log.Fatal\<close>
  is promised.
\<close>

fun utility_promise :: promise where
  "utility_promise (clientcmd_BuildConfigFromFlags masterUrl path) err st ws =
     fatal_line (clientcmd_BuildConfigFromFlags masterUrl path) err st ws"
| "utility_promise (NewForConfig_call config) err st ws =
     fatal_line (NewForConfig_call config) err st ws"
| "utility_promise c err st ws = fatal c err st ws"

text \<open>
  The MachineSet utility ends with status 0 and a message when the list request says
  not-found; otherwise it promises what the other two utilities do.
\<close>

fun machinesets_promise :: promise where
  "machinesets_promise (List_MachineSets ns) err st ws =
     (if IsNotFound err
      then st = 0 \<and> ws \<noteq> [] \<and> last ws = Printf ''No Machinesets found in namespace\<newline>'' []
      else fatal (List_MachineSets ns) err st ws)"
| "machinesets_promise c err st ws = utility_promise c err st ws"

text \<open>
  The watcher writes the error of a failed watch request last; nothing is said of the
  exit status in that case. Every other failure is fatal, with a report of the error.
\<close>

fun watcher_promise :: promise where
  "watcher_promise (Watch_Pods ns fs) err st ws =
     (ws \<noteq> [] \<and> last ws = Printf ''error create pod watcher: %v\<newline>'' [V err])"
| "watcher_promise c err st ws = fatal c err st ws"

text \<open>
  The two judgements of the proofs. \<open>eo v\<close> is the error that a returned value \<open>v\<close> stands
  for, \<open>None\<close> for a value of success. A program \<open>m\<close> started in a clean state ends in a
  clean state when it returns a value of success; when it returns an error, the state has
  failed at a call whose error the returned one carries, and for which the promise asks no
  more than \<open>fatal\<close>; when it ends the process, the promise is kept. A program started after
  the failure of \<open>c\<close> makes no further call, and returns such an error or ends the process
  with the promise kept.
\<close>

definition after_clean :: "promise \<Rightarrow> ('a \<Rightarrow> error option) \<Rightarrow> 'a outcome \<times> proc \<Rightarrow> bool" where
  "after_clean pr eo r =
     (case fst r of
        Returned v \<Rightarrow>
          (case eo v of
             None \<Rightarrow> clean (snd r)
           | Some e \<Rightarrow>
               (\<exists>c err. failed_at c err (snd r) \<and> carries err e \<and>
                  (\<forall>st ws. fatal c err st ws \<longrightarrow> pr c err st ws)))
      | Exit n \<Rightarrow> (\<exists>c err. failed_at c err (snd r) \<and> pr c err n (out (snd r)))
      | Panicked \<Rightarrow> (\<exists>c err. failed_at c err (snd r) \<and> pr c err 2 (out (snd r))))"

definition after_failure ::
  "call \<Rightarrow> error \<Rightarrow> promise \<Rightarrow> ('a \<Rightarrow> error option) \<Rightarrow> 'a outcome \<times> proc \<Rightarrow> bool" where
  "after_failure c err pr eo r =
     (failed_at c err (snd r) \<and>
      (case fst r of
         Returned v \<Rightarrow>
           (case eo v of
              None \<Rightarrow> False
            | Some e \<Rightarrow> carries err e \<and> (\<forall>st ws. fatal c err st ws \<longrightarrow> pr c err st ws))
       | Exit n \<Rightarrow> pr c err n (out (snd r))
       | Panicked \<Rightarrow> pr c err 2 (out (snd r))))"

definition disciplined :: "promise \<Rightarrow> ('a \<Rightarrow> error option) \<Rightarrow> 'a prog \<Rightarrow> bool" where
  "disciplined pr eo m = (\<forall>p. clean p \<longrightarrow> after_clean pr eo (m p))"

definition handles ::
  "call \<Rightarrow> error \<Rightarrow> promise \<Rightarrow> ('a \<Rightarrow> error option) \<Rightarrow> 'a prog \<Rightarrow> bool" where
  "handles c err pr eo m = (\<forall>p. failed_at c err p \<longrightarrow> after_failure c err pr eo (m p))"

text \<open>The error of a result with an error component, and the absence of any error.\<close>

definition error_of :: "error + 'a \<Rightarrow> error option" where
  "error_of r = (case r of Inl err \<Rightarrow> Some err | Inr v \<Rightarrow> None)"

definition no_error :: "'a \<Rightarrow> error option" where
  "no_error v = None"

section \<open>Example inputs\<close>

definition not_found :: error where
  "not_found = Library_error True ''the server could not find the requested resource''"

definition refused :: error where
  "refused = Library_error False ''connection refused''"

definition example_Join :: "string list \<Rightarrow> string" where
  "example_Join xs = foldr (\<lambda>x r. if r = [] then x else x @ ''/'' @ r) xs []"

definition example_env :: "'c \<Rightarrow> 'c env" where
  "example_env client =
     \<lparr>UserHomeDir = Inr ''/home/dev'', filepath_Join = example_Join,
      BuildConfigFromFlags = (\<lambda>masterUrl kubeconfigPath. Inr kubeconfigPath),
      NewForConfig = (\<lambda>config. Inr client)\<rparr>"

definition example_Deployment :: "string \<Rightarrow> Deployment" where
  "example_Deployment n =
     \<lparr>Deployment_ObjectMeta = \<lparr>Name = n, Namespace = ''shop'', Labels = Map.empty\<rparr>,
      Deployment_Spec =
        \<lparr>Replicas = Some 3, Selector = None,
         Template = \<lparr>Template_ObjectMeta = \<lparr>Name = '''', Namespace = '''', Labels = Map.empty\<rparr>,
                     Template_Spec = \<lparr>Containers = []\<rparr>\<rparr>\<rparr>\<rparr>"

definition example_Scale :: "int32 \<Rightarrow> Scale" where
  "example_Scale n =
     \<lparr>Scale_ObjectMeta = \<lparr>Name = ''web'', Namespace = ''shop'', Labels = Map.empty\<rparr>,
      Scale_Spec = \<lparr>Scale_Replicas = n\<rparr>\<rparr>"

text \<open>
  A cluster that answers the get, list, get-scale and watch requests as given, and
  accepts every other request.
\<close>

definition example_Clientset ::
  "(error + Deployment) \<Rightarrow> (error + DeploymentList) \<Rightarrow> (error + Scale) \<Rightarrow>
   (error + ResultChan) \<Rightarrow> Clientset" where
  "example_Clientset got listed scale watch =
     \<lparr>Pods_Watch = (\<lambda>h ns fs. watch),
      Deployments_Create = (\<lambda>h ns d. Inr d),
      Deployments_Get = (\<lambda>h ns n. got),
      Deployments_List = (\<lambda>h ns. listed),
      Deployments_Patch = (\<lambda>h ns n pt data. Inr (example_Deployment n)),
      Deployments_GetScale = (\<lambda>h ns n. scale),
      Deployments_UpdateScale = (\<lambda>h ns n sd. Inr sd),
      Deployments_Delete = (\<lambda>h ns n. None)\<rparr>"

definition example_DeploymentConfig :: "string \<Rightarrow> DeploymentConfig" where
  "example_DeploymentConfig n =
     \<lparr>DC_ObjectMeta = \<lparr>Name = n, Namespace = ''shop'', Labels = Map.empty\<rparr>,
      DC_Spec = \<lparr>DC_Replicas = 1, DC_Selector = Map.empty, DC_Template = None, Triggers = []\<rparr>\<rparr>"

definition example_AppsV1Client :: "(error + DeploymentConfigList) \<Rightarrow> AppsV1Client" where
  "example_AppsV1Client listed =
     \<lparr>DeploymentConfigs_Create = (\<lambda>h ns dc. Inr dc),
      DeploymentConfigs_List = (\<lambda>h ns. listed),
      DeploymentConfigs_Patch = (\<lambda>h ns n pt data. Inr (example_DeploymentConfig n)),
      DeploymentConfigs_Delete = (\<lambda>h ns n. None)\<rparr>"

definition example_MachineSet :: "string \<Rightarrow> string \<Rightarrow> MachineSet" where
  "example_MachineSet ns n =
     \<lparr>MachineSet_ObjectMeta = \<lparr>Name = n, Namespace = ns, Labels = Map.empty\<rparr>\<rparr>"

definition example_MachineClient :: "(error + MachineSetList) \<Rightarrow> MachineV1beta1Client" where
  "example_MachineClient listed =
     \<lparr>MachineSets_List = (\<lambda>h ns. listed),
      MachineSets_Patch = (\<lambda>h ns n pt data. Inr (example_MachineSet ns n))\<rparr>"

text \<open>
  Three events none of which has a container in \<^verbatim>\<open>CrashLoopBackOff\<close>: a status object,
  a Pod with a running container, and a Pod with a container waiting for another reason.
\<close>

definition quiet_events :: "Event list" where
  "quiet_events =
     [\<lparr>Type = Error, Object = OtherObject ''*v1.Status''\<rparr>,
      \<lparr>Type = Added, Object = PodObject
         \<lparr>Pod_ObjectMeta = \<lparr>Name = ''web-1'', Namespace = ''prod'', Labels = Map.empty\<rparr>,
          Pod_Status = \<lparr>Phase = ''Running'', ContainerStatuses =
            [\<lparr>ContainerStatus_Name = ''web'',
              State = \<lparr>Waiting = None, Running = Some \<lparr>StartedAt = ''t0''\<rparr>,
                       Terminated = None\<rparr>\<rparr>]\<rparr>\<rparr>\<rparr>,
      \<lparr>Type = Modified, Object = PodObject
         \<lparr>Pod_ObjectMeta = \<lparr>Name = ''job-2'', Namespace = ''prod'', Labels = Map.empty\<rparr>,
          Pod_Status = \<lparr>Phase = ''Pending'', ContainerStatuses =
            [\<lparr>ContainerStatus_Name = ''job'',
              State = \<lparr>Waiting = Some \<lparr>Reason = ''ContainerCreating'', Message = ''''\<rparr>,
                       Running = None, Terminated = None\<rparr>\<rparr>]\<rparr>\<rparr>\<rparr>]"

section \<open>Properties of the watcher loop\<close>

lemma range_ResultChan_drop:
  "i \<le> length es \<Longrightarrow>
   range_ResultChan (closed_after es) i p =
     Some (length es, p\<lparr>out := out p @ concat (map process_event (drop i es))\<rparr>)"
proof (induction "length es - i" arbitrary: i p)
  case 0
  then have "i = length es" by simp
  then show ?case
    by (subst range_ResultChan.simps) (simp add: closed_after_def)
next
  case (Suc n)
  then have lt: "i < length es" and n: "n = length es - Suc i" and le: "Suc i \<le> length es"
    by simp_all
  have d: "drop i es = es ! i # drop (Suc i) es"
    using lt by (simp add: Cons_nth_drop_Suc)
  show ?case
    by (subst range_ResultChan.simps) (simp add: closed_after_def lt Suc.hyps(1) [OF n le] d)
qed

lemma range_ResultChan_all:
  "range_ResultChan (closed_after es) 0 p =
     Some (length es, p\<lparr>out := out p @ concat (map process_event es)\<rparr>)"
  using range_ResultChan_drop [of 0 es p] by simp

lemma range_ContainerStatuses_append:
  "range_ContainerStatuses pod (cs1 @ cs2) =
     range_ContainerStatuses pod cs1 @ range_ContainerStatuses pod cs2"
  by (induction cs1) simp_all

lemma range_ContainerStatuses_replicate:
  "range_ContainerStatuses pod cs =
     replicate
       (length (filter (\<lambda>c. \<exists>w. Waiting (State c) = Some w \<and> Reason w = ''CrashLoopBackOff'') cs))
       (Printf ''PodName: %s, Namespace: %s, Phase: %s\<newline>''
          [S (Name (Pod_ObjectMeta pod)), S (Namespace (Pod_ObjectMeta pod)),
           S (Phase (Pod_Status pod))])"
  by (induction cs) (auto split: option.splits)

lemma process_event_Pod:
  "process_event \<lparr>Type = t, Object = PodObject pod\<rparr> =
     range_ContainerStatuses pod (ContainerStatuses (Pod_Status pod))"
  by (simp add: process_event_def)

lemma process_event_Other: "process_event \<lparr>Type = t, Object = OtherObject k\<rparr> = []"
  by (simp add: process_event_def)

text \<open>
  Claim C1. For an event whose payload is a Pod, the body of the loop writes one line for
  each container status of the Pod whose \<^verbatim>\<open>State.Waiting\<close> is set with the reason
  \<^verbatim>\<open>CrashLoopBackOff\<close>, and nothing else; each line is the \<^verbatim>\<open>Printf\<close> of the name, the
  namespace and the phase of the Pod. The loop adds exactly these lines for the event,
  wherever it stands in the stream. A Pod with no such container status adds no line.
  (A line is one \<^verbatim>\<open>Printf\<close> call.)
\<close>

theorem crashloop_lines:
  "process_event \<lparr>Type = t, Object = PodObject pod\<rparr> =
     replicate
       (length (filter (\<lambda>c. \<exists>w. Waiting (State c) = Some w \<and> Reason w = ''CrashLoopBackOff'')
          (ContainerStatuses (Pod_Status pod))))
       (Printf ''PodName: %s, Namespace: %s, Phase: %s\<newline>''
          [S (Name (Pod_ObjectMeta pod)), S (Namespace (Pod_ObjectMeta pod)),
           S (Phase (Pod_Status pod))])
   \<and> range_ResultChan (closed_after (pre @ \<lparr>Type = t, Object = PodObject pod\<rparr> # post)) 0 p =
       Some (Suc (length pre + length post),
         p\<lparr>out := out p @ concat (map process_event pre)
            @ replicate
                (length (filter (\<lambda>c. \<exists>w. Waiting (State c) = Some w \<and> Reason w = ''CrashLoopBackOff'')
                   (ContainerStatuses (Pod_Status pod))))
                (Printf ''PodName: %s, Namespace: %s, Phase: %s\<newline>''
                   [S (Name (Pod_ObjectMeta pod)), S (Namespace (Pod_ObjectMeta pod)),
                    S (Phase (Pod_Status pod))])
            @ concat (map process_event post)\<rparr>)
   \<and> ((\<forall>c \<in> set (ContainerStatuses (Pod_Status pod)).
          \<forall>w. Waiting (State c) = Some w \<longrightarrow> Reason w \<noteq> ''CrashLoopBackOff'')
        \<longrightarrow> process_event \<lparr>Type = t, Object = PodObject pod\<rparr> = [])"
proof (intro conjI impI)
  show 1: "process_event \<lparr>Type = t, Object = PodObject pod\<rparr> =
     replicate
       (length (filter (\<lambda>c. \<exists>w. Waiting (State c) = Some w \<and> Reason w = ''CrashLoopBackOff'')
          (ContainerStatuses (Pod_Status pod))))
       (Printf ''PodName: %s, Namespace: %s, Phase: %s\<newline>''
          [S (Name (Pod_ObjectMeta pod)), S (Namespace (Pod_ObjectMeta pod)),
           S (Phase (Pod_Status pod))])"
    by (simp only: process_event_Pod range_ContainerStatuses_replicate)
  show "range_ResultChan (closed_after (pre @ \<lparr>Type = t, Object = PodObject pod\<rparr> # post)) 0 p =
       Some (Suc (length pre + length post),
         p\<lparr>out := out p @ concat (map process_event pre)
            @ replicate
                (length (filter (\<lambda>c. \<exists>w. Waiting (State c) = Some w \<and> Reason w = ''CrashLoopBackOff'')
                   (ContainerStatuses (Pod_Status pod))))
                (Printf ''PodName: %s, Namespace: %s, Phase: %s\<newline>''
                   [S (Name (Pod_ObjectMeta pod)), S (Namespace (Pod_ObjectMeta pod)),
                    S (Phase (Pod_Status pod))])
            @ concat (map process_event post)\<rparr>)"
    by (simp add: range_ResultChan_all 1 del: replicate_append_same)
  assume "\<forall>c \<in> set (ContainerStatuses (Pod_Status pod)).
          \<forall>w. Waiting (State c) = Some w \<longrightarrow> Reason w \<noteq> ''CrashLoopBackOff''"
  then have "filter (\<lambda>c. \<exists>w. Waiting (State c) = Some w \<and> Reason w = ''CrashLoopBackOff'')
          (ContainerStatuses (Pod_Status pod)) = []"
    by (auto simp: filter_empty_conv)
  then show "process_event \<lparr>Type = t, Object = PodObject pod\<rparr> = []"
    by (simp add: 1)
qed

text \<open>
  The two scenarios of the specification: a Pod whose only container is running writes
  nothing, and the Pod \<^verbatim>\<open>api-7f\<close> of namespace \<^verbatim>\<open>prod\<close> in phase \<^verbatim>\<open>Running\<close>, with one
  container in \<^verbatim>\<open>CrashLoopBackOff\<close>, writes one line with these three strings.
\<close>

theorem crashloop_lines_witness:
  "process_event \<lparr>Type = Modified, Object = PodObject
       \<lparr>Pod_ObjectMeta = \<lparr>Name = ''web-1'', Namespace = ''prod'', Labels = Map.empty\<rparr>,
        Pod_Status = \<lparr>Phase = ''Running'', ContainerStatuses =
          [\<lparr>ContainerStatus_Name = ''web'',
            State = \<lparr>Waiting = None, Running = Some \<lparr>StartedAt = ''t0''\<rparr>, Terminated = None\<rparr>\<rparr>]\<rparr>\<rparr>\<rparr>
     = []
   \<and> process_event \<lparr>Type = Modified, Object = PodObject
       \<lparr>Pod_ObjectMeta = \<lparr>Name = ''api-7f'', Namespace = ''prod'', Labels = Map.empty\<rparr>,
        Pod_Status = \<lparr>Phase = ''Running'', ContainerStatuses =
          [\<lparr>ContainerStatus_Name = ''api'',
            State = \<lparr>Waiting = Some \<lparr>Reason = ''CrashLoopBackOff'', Message = ''''\<rparr>,
                     Running = None, Terminated = None\<rparr>\<rparr>]\<rparr>\<rparr>\<rparr>
     = [Printf ''PodName: %s, Namespace: %s, Phase: %s\<newline>''
          [S ''api-7f'', S ''prod'', S ''Running'']]"
  using
    crashloop_lines [of Modified
       "\<lparr>Pod_ObjectMeta = \<lparr>Name = ''web-1'', Namespace = ''prod'', Labels = Map.empty\<rparr>,
        Pod_Status = \<lparr>Phase = ''Running'', ContainerStatuses =
          [\<lparr>ContainerStatus_Name = ''web'',
            State = \<lparr>Waiting = None, Running = Some \<lparr>StartedAt = ''t0''\<rparr>, Terminated = None\<rparr>\<rparr>]\<rparr>\<rparr>"
       "[]" "[]" start]
    crashloop_lines [of Modified
       "\<lparr>Pod_ObjectMeta = \<lparr>Name = ''api-7f'', Namespace = ''prod'', Labels = Map.empty\<rparr>,
        Pod_Status = \<lparr>Phase = ''Running'', ContainerStatuses =
          [\<lparr>ContainerStatus_Name = ''api'',
            State = \<lparr>Waiting = Some \<lparr>Reason = ''CrashLoopBackOff'', Message = ''''\<rparr>,
                     Running = None, Terminated = None\<rparr>\<rparr>]\<rparr>\<rparr>"
       "[]" "[]" start]
  by simp

text \<open>
  Claim C2. An event whose payload is not a Pod writes nothing, and the loop ends
  normally on a stream that holds it; the state of the process at the end of the stream is
  the one reached on the stream without that event (only the count of received events
  differs, by one).
\<close>

theorem other_payload_discarded:
  "process_event \<lparr>Type = t, Object = OtherObject k\<rparr> = []
   \<and> range_ResultChan (closed_after (pre @ \<lparr>Type = t, Object = OtherObject k\<rparr> # post)) 0 p =
       Some (Suc (length pre + length post),
             p\<lparr>out := out p @ concat (map process_event (pre @ post))\<rparr>)
   \<and> range_ResultChan (closed_after (pre @ post)) 0 p =
       Some (length pre + length post,
             p\<lparr>out := out p @ concat (map process_event (pre @ post))\<rparr>)"
  by (simp add: range_ResultChan_all process_event_Other)

text \<open>
  Claim C5. In two runs of the loop, on any two prefixes and from any two states of the
  process, the same event \<open>e\<close> adds the same lines, \<open>process_event e\<close>, a function of the
  event alone; the loop changes nothing else in the state of the process (it makes no
  call), and it carries only the position in the stream from one iteration to the next.
\<close>

theorem filter_stateless:
  "\<exists>p1 p2.
     range_ResultChan (closed_after pre1) 0 q1 = Some (length pre1, p1)
   \<and> range_ResultChan (closed_after (pre1 @ [e])) 0 q1 =
       Some (Suc (length pre1), p1\<lparr>out := out p1 @ process_event e\<rparr>)
   \<and> range_ResultChan (closed_after pre2) 0 q2 = Some (length pre2, p2)
   \<and> range_ResultChan (closed_after (pre2 @ [e])) 0 q2 =
       Some (Suc (length pre2), p2\<lparr>out := out p2 @ process_event e\<rparr>)
   \<and> calls p1 = calls q1 \<and> calls p2 = calls q2"
  by (simp add: range_ResultChan_all)

text \<open>
  Claim C8. The output of the loop on a stream is the concatenation, in the order of the
  stream, of the outputs of its events, where the output of an event is what the loop
  writes on the stream of this event alone; so the output on \<open>es1 @ es2\<close> is the output on
  \<open>es1\<close> followed by that on \<open>es2\<close>. Inside an event the lines follow the order of the list
  of container statuses: the lines of \<open>cs1 @ cs2\<close> are those of \<open>cs1\<close>, then those of \<open>cs2\<close>.
\<close>

theorem events_in_order:
  "range_ResultChan (closed_after es) 0 p =
     Some (length es, p\<lparr>out := out p @ concat (map process_event es)\<rparr>)
   \<and> (\<forall>e. range_ResultChan (closed_after [e]) 0 start = Some (1, start\<lparr>out := process_event e\<rparr>))
   \<and> range_ResultChan (closed_after (es1 @ es2)) 0 p =
       Some (length es1 + length es2,
             p\<lparr>out := out p @ concat (map process_event es1) @ concat (map process_event es2)\<rparr>)
   \<and> process_event \<lparr>Type = t, Object = PodObject
         (pod\<lparr>Pod_Status := (Pod_Status pod)\<lparr>ContainerStatuses := cs1 @ cs2\<rparr>\<rparr>)\<rparr> =
       process_event \<lparr>Type = t, Object = PodObject
         (pod\<lparr>Pod_Status := (Pod_Status pod)\<lparr>ContainerStatuses := cs1\<rparr>\<rparr>)\<rparr>
       @ process_event \<lparr>Type = t, Object = PodObject
         (pod\<lparr>Pod_Status := (Pod_Status pod)\<lparr>ContainerStatuses := cs2\<rparr>\<rparr>)\<rparr>"
  by (simp add: range_ResultChan_all process_event_Pod start_def
        range_ContainerStatuses_replicate replicate_add)

section \<open>Stopping at the first failure\<close>

subsection \<open>Rules for the two judgements\<close>

lemmas prog_defs = bind_def return_def fmt_Printf_def fmt_Println_def os_Exit_def log_Fatal_def
  panic_def extern_def extern_err_def emit_def

lemma carries_refl [simp]: "carries err err"
  by (cases err) simp_all

lemma clean_extend: "clean p \<Longrightarrow> clean (p\<lparr>calls := calls p @ [(c, None)]\<rparr>)"
  by (simp add: clean_def)

lemma failed_extend: "clean p \<Longrightarrow> failed_at c err (p\<lparr>calls := calls p @ [(c, Some err)]\<rparr>)"
  by (simp add: clean_def failed_at_def)

lemma after_failure_after_clean: "after_failure c err pr eo r \<Longrightarrow> after_clean pr eo r"
proof (cases "fst r")
  case (Returned v)
  assume a: "after_failure c err pr eo r"
  show ?thesis
  proof (cases "eo v")
    case None
    with a Returned show ?thesis by (simp add: after_failure_def)
  next
    case (Some e)
    with a Returned have "failed_at c err (snd r) \<and> carries err e \<and>
        (\<forall>st ws. fatal c err st ws \<longrightarrow> pr c err st ws)"
      by (simp add: after_failure_def)
    then have "\<exists>c err. failed_at c err (snd r) \<and> carries err e \<and>
        (\<forall>st ws. fatal c err st ws \<longrightarrow> pr c err st ws)"
      by blast
    with Returned Some show ?thesis by (simp add: after_clean_def)
  qed
next
  case (Exit n)
  assume "after_failure c err pr eo r"
  with Exit have "failed_at c err (snd r) \<and> pr c err n (out (snd r))"
    by (simp add: after_failure_def)
  then have "\<exists>c err. failed_at c err (snd r) \<and> pr c err n (out (snd r))" by blast
  with Exit show ?thesis by (simp add: after_clean_def)
next
  case Panicked
  assume "after_failure c err pr eo r"
  with Panicked have "failed_at c err (snd r) \<and> pr c err 2 (out (snd r))"
    by (simp add: after_failure_def)
  then have "\<exists>c err. failed_at c err (snd r) \<and> pr c err 2 (out (snd r))" by blast
  with Panicked show ?thesis by (simp add: after_clean_def)
qed

lemma disciplinedD: "disciplined pr eo m \<Longrightarrow> clean p \<Longrightarrow> after_clean pr eo (m p)"
  by (simp add: disciplined_def)

lemma handlesD: "handles c err pr eo m \<Longrightarrow> failed_at c err p \<Longrightarrow> after_clean pr eo (m p)"
  unfolding handles_def by (blast intro: after_failure_after_clean)

lemma disciplined_extern_bind:
  assumes h: "\<And>err. handles c err pr eo (f (Inl err))"
      and k: "\<And>v. disciplined pr eo (f (Inr v))"
  shows "disciplined pr eo (bind (extern c g) f)"
  unfolding disciplined_def
proof (intro allI impI)
  fix p :: proc assume cl: "clean p"
  show "after_clean pr eo (bind (extern c g) f p)"
  proof (cases "g (calls p)")
    case (Inl err)
    have b: "bind (extern c g) f p = f (Inl err) (p\<lparr>calls := calls p @ [(c, Some err)]\<rparr>)"
      by (simp add: bind_def extern_def Let_def Inl)
    show ?thesis unfolding b by (rule handlesD [OF h failed_extend [OF cl]])
  next
    case (Inr v)
    have b: "bind (extern c g) f p = f (Inr v) (p\<lparr>calls := calls p @ [(c, None)]\<rparr>)"
      by (simp add: bind_def extern_def Let_def Inr)
    show ?thesis unfolding b by (rule disciplinedD [OF k clean_extend [OF cl]])
  qed
qed

lemma disciplined_extern_err_bind:
  assumes h: "\<And>err. handles c err pr eo (f (Some err))"
      and k: "disciplined pr eo (f None)"
  shows "disciplined pr eo (bind (extern_err c g) f)"
  unfolding disciplined_def
proof (intro allI impI)
  fix p :: proc assume cl: "clean p"
  show "after_clean pr eo (bind (extern_err c g) f p)"
  proof (cases "g (calls p)")
    case (Some err)
    have b: "bind (extern_err c g) f p = f (Some err) (p\<lparr>calls := calls p @ [(c, Some err)]\<rparr>)"
      by (simp add: bind_def extern_err_def Let_def Some)
    show ?thesis unfolding b by (rule handlesD [OF h failed_extend [OF cl]])
  next
    case None
    have b: "bind (extern_err c g) f p = f None (p\<lparr>calls := calls p @ [(c, None)]\<rparr>)"
      by (simp add: bind_def extern_err_def Let_def None)
    show ?thesis unfolding b by (rule disciplinedD [OF k clean_extend [OF cl]])
  qed
qed

lemma disciplined_Printf_bind:
  assumes "disciplined pr eo (f ())"
  shows "disciplined pr eo (bind (fmt_Printf s a) f)"
  using assms unfolding disciplined_def
  by (simp add: bind_def fmt_Printf_def emit_def clean_def)

lemma disciplined_Println_bind:
  assumes "disciplined pr eo (f ())"
  shows "disciplined pr eo (bind (fmt_Println a) f)"
  using assms unfolding disciplined_def
  by (simp add: bind_def fmt_Println_def emit_def clean_def)

lemma disciplined_return: "eo v = None \<Longrightarrow> disciplined pr eo (return v)"
  by (simp add: disciplined_def after_clean_def return_def)

lemma disciplined_Printf: "eo () = None \<Longrightarrow> disciplined pr eo (fmt_Printf s a)"
  by (simp add: disciplined_def after_clean_def fmt_Printf_def emit_def clean_def)

lemma disciplined_if:
  "disciplined pr eo m1 \<Longrightarrow> disciplined pr eo m2 \<Longrightarrow> disciplined pr eo (if b then m1 else m2)"
  by simp

lemma disciplined_bind:
  assumes m: "disciplined pr eo m"
      and h: "\<And>v e c err. eo v = Some e \<Longrightarrow> carries err e \<Longrightarrow>
                (\<And>st ws. fatal c err st ws \<Longrightarrow> pr c err st ws) \<Longrightarrow>
                handles c err pr eo' (f v)"
      and k: "\<And>v. eo v = None \<Longrightarrow> disciplined pr eo' (f v)"
  shows "disciplined pr eo' (bind m f)"
  unfolding disciplined_def
proof (intro allI impI)
  fix p :: proc assume cl: "clean p"
  obtain oc p' where r: "m p = (oc, p')" by (cases "m p")
  from m cl have pm: "after_clean pr eo (m p)" by (simp add: disciplined_def)
  show "after_clean pr eo' (bind m f p)"
  proof (cases oc)
    case (Returned v)
    have b: "bind m f p = f v p'" by (simp add: bind_def r Returned)
    show ?thesis
    proof (cases "eo v")
      case (Some e)
      with pm r Returned obtain c err where f: "failed_at c err p'" and ca: "carries err e"
        and w: "\<And>st ws. fatal c err st ws \<Longrightarrow> pr c err st ws"
        by (auto simp: after_clean_def)
      show ?thesis unfolding b by (rule handlesD [OF h [OF Some ca w] f])
    next
      case None
      with pm r Returned have "clean p'" by (simp add: after_clean_def)
      then show ?thesis unfolding b by (rule disciplinedD [OF k [OF None]])
    qed
  next
    case (Exit n)
    with pm r show ?thesis by (simp add: after_clean_def bind_def)
  next
    case Panicked
    with pm r show ?thesis by (simp add: after_clean_def bind_def)
  qed
qed

lemma disciplined_bind_unit:
  assumes "disciplined pr no_error m" and "\<And>v. disciplined pr eo (f v)"
  shows "disciplined pr eo (bind m f)"
  by (rule disciplined_bind [OF assms(1)]) (simp_all add: assms(2) no_error_def)

lemma disciplined_bind_sum:
  assumes "disciplined pr error_of m"
      and "\<And>e c err. carries err e \<Longrightarrow> (\<And>st ws. fatal c err st ws \<Longrightarrow> pr c err st ws) \<Longrightarrow>
             handles c err pr eo (f (Inl e))"
      and "\<And>v. disciplined pr eo (f (Inr v))"
  shows "disciplined pr eo (bind m f)"
proof (rule disciplined_bind [OF assms(1)])
  fix v :: "error + 'a" and e c err
  assume "error_of v = Some e" "carries err e" "\<And>st ws. fatal c err st ws \<Longrightarrow> pr c err st ws"
  then show "handles c err pr eo (f v)"
    by (cases v) (simp_all add: error_of_def assms(2))
next
  fix v :: "error + 'a"
  assume "error_of v = None" then show "disciplined pr eo (f v)"
    by (cases v) (simp_all add: error_of_def assms(3))
qed

lemma disciplined_bind_option:
  assumes "disciplined pr (\<lambda>r. r) m"
      and "\<And>e c err. carries err e \<Longrightarrow> (\<And>st ws. fatal c err st ws \<Longrightarrow> pr c err st ws) \<Longrightarrow>
             handles c err pr eo (f (Some e))"
      and "disciplined pr eo (f None)"
  shows "disciplined pr eo (bind m f)"
proof (rule disciplined_bind [OF assms(1)])
  fix v :: "error option" and e c err
  assume "v = Some e" "carries err e" "\<And>st ws. fatal c err st ws \<Longrightarrow> pr c err st ws"
  then show "handles c err pr eo (f v)"
    by (simp add: assms(2))
next
  fix v :: "error option"
  assume "v = None" then show "disciplined pr eo (f v)"
    by (simp add: assms(3))
qed

lemma disciplined_fail_stop:
  assumes d: "disciplined pr no_error m"
  shows "fail_stop pr (m start)"
proof -
  have "clean start" by (simp add: clean_def start_def)
  with d have p: "after_clean pr no_error (m start)" by (simp add: disciplined_def)
  show ?thesis
  proof (cases "fst (m start)")
    case (Returned v)
    with p show ?thesis by (simp add: after_clean_def fail_stop_def no_error_def)
  next
    case (Exit n)
    with p show ?thesis by (simp add: after_clean_def fail_stop_def)
  next
    case Panicked
    with p show ?thesis by (simp add: after_clean_def fail_stop_def)
  qed
qed

lemma handles_Printf_Exit:
  "carries err e \<Longrightarrow> (\<And>st ws. fatal c err st ws \<Longrightarrow> pr c err st ws) \<Longrightarrow>
   handles c err pr eo (bind (fmt_Printf s [V e]) (\<lambda>_. os_Exit 1))"
  by (simp add: handles_def after_failure_def prog_defs failed_at_def fatal_def)

lemma handles_log_Fatal:
  "carries err e \<Longrightarrow> (\<And>st ws. fatal c err st ws \<Longrightarrow> pr c err st ws) \<Longrightarrow>
   handles c err pr eo (log_Fatal [V e])"
  by (simp add: handles_def after_failure_def prog_defs failed_at_def fatal_def)

lemma handles_log_Fatal_Method_value:
  "(\<And>st ws. fatal_line c err st ws \<Longrightarrow> pr c err st ws) \<Longrightarrow>
   handles c err pr eo (log_Fatal [Method_value])"
  by (simp add: handles_def after_failure_def prog_defs failed_at_def fatal_line_def)

lemma handles_panic:
  "shows_error err a \<Longrightarrow> (\<And>st ws. fatal c err st ws \<Longrightarrow> pr c err st ws) \<Longrightarrow>
   handles c err pr eo (panic a)"
  by (simp add: handles_def after_failure_def prog_defs failed_at_def fatal_def)

lemma handles_Printf_bind:
  "handles c err pr eo (f ()) \<Longrightarrow> handles c err pr eo (bind (fmt_Printf s a) f)"
  by (simp add: handles_def after_failure_def prog_defs failed_at_def)

lemma handles_NotFound:
  "handles (List_MachineSets ns) err machinesets_promise eo
     (if IsNotFound err
      then bind (fmt_Printf ''No Machinesets found in namespace\<newline>'' []) (\<lambda>_. os_Exit 0)
      else panic (Error_text err))"
  by (simp add: handles_def after_failure_def prog_defs failed_at_def fatal_def)

lemma no_error_None [simp]: "no_error v = None"
  by (simp add: no_error_def)

lemma error_of_simps [simp]: "error_of (Inl e) = Some e" "error_of (Inr v) = None"
  by (simp_all add: error_of_def)

lemma handles_return_Some:
  "carries err e \<Longrightarrow> (\<And>st ws. fatal c err st ws \<Longrightarrow> pr c err st ws) \<Longrightarrow>
   handles c err pr (\<lambda>r. r) (return (Some e))"
  by (simp add: handles_def after_failure_def prog_defs)

lemma handles_return_Inl:
  "carries err e \<Longrightarrow> (\<And>st ws. fatal c err st ws \<Longrightarrow> pr c err st ws) \<Longrightarrow>
   handles c err pr error_of (return (Inl e))"
  by (simp add: handles_def after_failure_def prog_defs)

lemma handles_Printf_return_Inl:
  "carries err e \<Longrightarrow> (\<And>st ws. fatal c err st ws \<Longrightarrow> pr c err st ws) \<Longrightarrow>
   handles c err pr error_of (bind (fmt_Printf s a) (\<lambda>_. return (Inl e)))"
  by (simp add: handles_def after_failure_def prog_defs failed_at_def)

lemmas disciplined_rules =
  disciplined_extern_bind disciplined_extern_err_bind disciplined_Printf_bind
  disciplined_Println_bind disciplined_return disciplined_Printf disciplined_if
  handles_Printf_Exit handles_log_Fatal handles_log_Fatal_Method_value handles_panic
  handles_return_Some handles_return_Inl handles_Printf_return_Inl handles_NotFound
  handles_Printf_bind

subsection \<open>The functions and the three utilities\<close>

lemma getK8sClient_disciplined: "disciplined utility_promise no_error (getK8sClient e)"
  unfolding getK8sClient_def Let_def
  by (rule disciplined_rules | simp only: sum.case option.case | (simp; fail))+

lemma CreateDeployment_disciplined:
  "disciplined utility_promise (\<lambda>r. r) (CreateDeployment c name namespace image' replicas)"
  unfolding CreateDeployment_def Let_def
  by (rule disciplined_rules | simp only: sum.case option.case | (simp; fail))+

lemma GetDeployment_disciplined: "disciplined utility_promise error_of (GetDeployment c name namespace)"
  unfolding GetDeployment_def Let_def
  by (rule disciplined_rules | simp only: sum.case option.case | (simp; fail))+

lemma ListDeployment_disciplined: "disciplined utility_promise error_of (ListDeployment c namespace)"
  unfolding ListDeployment_def Let_def
  by (rule disciplined_rules | simp only: sum.case option.case | (simp; fail))+

lemma UpdateDeployment_disciplined:
  "disciplined utility_promise no_error (UpdateDeployment c name namespace image')"
  unfolding UpdateDeployment_def Let_def
  by (rule disciplined_rules | simp only: sum.case option.case | (simp; fail))+

lemma ScaleDeployment_disciplined:
  "disciplined utility_promise no_error (ScaleDeployment c name namespace replica)"
  unfolding ScaleDeployment_def Let_def
  by (rule disciplined_rules disciplined_bind_unit | simp only: sum.case option.case | (simp; fail))+

lemma DeleteDeployment_disciplined:
  "disciplined utility_promise (\<lambda>r. r) (DeleteDeployment c name namespace)"
  unfolding DeleteDeployment_def Let_def
  by (rule disciplined_rules | simp only: sum.case option.case | (simp; fail))+

lemma range_Deployments_disciplined: "disciplined pr no_error (range_Deployments ds)"
  by (induction ds) (simp_all add: disciplined_return disciplined_Printf_bind)

lemma main_deployments_disciplined: "disciplined utility_promise no_error (main_deployments e)"
  unfolding main_deployments_def Let_def
  by (rule disciplined_bind_unit [OF getK8sClient_disciplined]
        disciplined_bind_option [OF CreateDeployment_disciplined]
        disciplined_bind_sum [OF GetDeployment_disciplined]
        disciplined_bind_sum [OF ListDeployment_disciplined]
        disciplined_bind_unit [OF range_Deployments_disciplined]
        disciplined_bind_unit [OF UpdateDeployment_disciplined]
        disciplined_bind_unit [OF ScaleDeployment_disciplined]
        disciplined_bind_option [OF DeleteDeployment_disciplined]
        disciplined_rules
      | simp only: sum.case option.case | (simp; fail))+

lemma CreateDeploymentConfig_disciplined:
  "disciplined utility_promise (\<lambda>r. r) (CreateDeploymentConfig name namespace image' replicas client)"
  unfolding CreateDeploymentConfig_def Let_def
  by (rule disciplined_rules | simp only: sum.case option.case | (simp; fail))+

lemma ListDeploymentConfigs_disciplined:
  "disciplined utility_promise error_of (ListDeploymentConfigs namespace client)"
  unfolding ListDeploymentConfigs_def Let_def
  by (rule disciplined_rules | simp only: sum.case option.case | (simp; fail))+

lemma ScaleDeploymentConfig_disciplined:
  "disciplined utility_promise no_error (ScaleDeploymentConfig name namespace scale client)"
  unfolding ScaleDeploymentConfig_def Let_def
  by (rule disciplined_rules | simp only: sum.case option.case | (simp; fail))+

lemma UpdateDeploymentConfigImage_disciplined:
  "disciplined utility_promise no_error (UpdateDeploymentConfigImage name namespace image' client)"
  unfolding UpdateDeploymentConfigImage_def Let_def
  by (rule disciplined_rules | simp only: sum.case option.case | (simp; fail))+

lemma DeleteDeploymentConfig_disciplined:
  "disciplined utility_promise (\<lambda>r. r) (DeleteDeploymentConfig name namespace client)"
  unfolding DeleteDeploymentConfig_def Let_def
  by (rule disciplined_rules | simp only: sum.case option.case | (simp; fail))+

lemma range_DeploymentConfigs_disciplined:
  "disciplined pr no_error (range_DeploymentConfigs ds)"
  by (induction ds) (simp_all add: disciplined_return disciplined_Printf_bind)

lemma main_deploymentconfigs_disciplined:
  "disciplined utility_promise no_error (main_deploymentconfigs e)"
  unfolding main_deploymentconfigs_def Let_def
  by (rule disciplined_bind_option [OF CreateDeploymentConfig_disciplined]
        disciplined_bind_sum [OF ListDeploymentConfigs_disciplined]
        disciplined_bind_unit [OF range_DeploymentConfigs_disciplined]
        disciplined_bind_unit [OF UpdateDeploymentConfigImage_disciplined]
        disciplined_bind_unit [OF ScaleDeploymentConfig_disciplined]
        disciplined_bind_option [OF DeleteDeploymentConfig_disciplined]
        disciplined_rules
      | simp only: sum.case option.case | (simp; fail))+

lemma range_MachineSets_disciplined:
  "disciplined machinesets_promise no_error (range_MachineSets client payloadBytes mss)"
proof (induction mss)
  case Nil
  show ?case by (simp add: disciplined_return)
next
  case (Cons ms mss)
  show ?case
    unfolding range_MachineSets.simps Let_def
    by (rule Cons.IH disciplined_rules | simp only: sum.case option.case | (simp; fail))+
qed

lemma main_machinesets_disciplined:
  "disciplined machinesets_promise no_error (main_machinesets e)"
  unfolding main_machinesets_def Let_def
  by (rule range_MachineSets_disciplined disciplined_rules
      | simp only: sum.case option.case | (simp; fail))+

lemma main_deployments_fail_stop: "fail_stop utility_promise (main_deployments e start)"
  by (rule disciplined_fail_stop [OF main_deployments_disciplined])

lemma main_deploymentconfigs_fail_stop: "fail_stop utility_promise (main_deploymentconfigs e start)"
  by (rule disciplined_fail_stop [OF main_deploymentconfigs_disciplined])

lemma main_machinesets_fail_stop: "fail_stop machinesets_promise (main_machinesets e start)"
  by (rule disciplined_fail_stop [OF main_machinesets_disciplined])

subsection \<open>The watcher\<close>

lemma range_ResultChan_calls:
  assumes a: "range_ResultChan ch i p = Some r"
  shows "calls (snd r) = calls p"
proof (rule range_ResultChan.raw_induct [where P = "\<lambda>ch i p r. calls (snd r) = calls p", OF _ a])
  fix f :: "ResultChan \<Rightarrow> nat \<Rightarrow> proc \<Rightarrow> (nat \<times> proc) option" and ch i p r
  assume IH: "\<And>ch i p y. f ch i p = Some y \<Longrightarrow> calls (snd y) = calls p"
    and b: "(case ch i of None \<Rightarrow> Some (i, p)
             | Some event \<Rightarrow> f ch (Suc i) (p\<lparr>out := out p @ process_event event\<rparr>)) = Some r"
  show "calls (snd r) = calls p"
  proof (cases "ch i")
    case None
    with b show ?thesis by auto
  next
    case (Some event)
    with b have "f ch (Suc i) (p\<lparr>out := out p @ process_event event\<rparr>) = Some r" by simp
    from IH [OF this] show ?thesis by simp
  qed
qed

lemma main_until_loop_cases:
  "case main_until_loop e start of
     (Returned None, p) \<Rightarrow>
        (\<exists>err. failed_at (Watch_Pods '''' '''') err p \<and> out p \<noteq> [] \<and>
               last (out p) = Printf ''error create pod watcher: %v\<newline>'' [V err])
   | (Returned (Some ch), p) \<Rightarrow> clean p
   | (Exit n, p) \<Rightarrow> (\<exists>c err. failed_at c err p \<and> watcher_promise c err n (out p))
   | (Panicked, p) \<Rightarrow> False"
  unfolding main_until_loop_def Let_def
  by (simp add: prog_defs Let_def start_def clean_def failed_at_def fatal_def split: sum.splits)

lemma main_watcher_fail_stop:
  "(\<exists>r. main_watcher e = Some r \<and> fail_stop watcher_promise r) \<or>
   (\<exists>ch p. main_until_loop e start = (Returned (Some ch), p) \<and> clean p \<and>
            range_ResultChan ch 0 p = None)"
proof -
  obtain oc p where r: "main_until_loop e start = (oc, p)" by (cases "main_until_loop e start")
  note c = main_until_loop_cases [of e, unfolded r prod.case]
  show ?thesis
  proof (cases oc)
    case (Returned w)
    show ?thesis
    proof (cases w)
      case None
      with c Returned obtain err where
        "failed_at (Watch_Pods '''' '''') err p" "out p \<noteq> []"
        "last (out p) = Printf ''error create pod watcher: %v\<newline>'' [V err]"
        by auto
      then have "failed_at (Watch_Pods '''' '''') err p \<and>
                 watcher_promise (Watch_Pods '''' '''') err 0 (out p)"
        by simp
      then have "\<exists>c e. failed_at c e p \<and> watcher_promise c e 0 (out p)" by blast
      then have "fail_stop watcher_promise (Returned (), p)"
        by (simp add: fail_stop_def)
      moreover have "main_watcher e = Some (Returned (), p)"
        by (simp add: main_watcher_def r Returned None)
      ultimately show ?thesis by simp
    next
      case (Some ch)
      with c Returned have cl: "clean p" by simp
      show ?thesis
      proof (cases "range_ResultChan ch 0 p")
        case None
        with cl r Returned Some show ?thesis by simp
      next
        case (Some np)
        from range_ResultChan_calls [OF Some] cl have "clean (snd np)"
          by (simp add: clean_def)
        then have "fail_stop watcher_promise (Returned (), snd np)"
          by (simp add: fail_stop_def)
        moreover have "main_watcher e = Some (Returned (), snd np)"
          by (simp add: main_watcher_def r Returned \<open>w = Some ch\<close> Some split: prod.splits)
        ultimately show ?thesis by simp
      qed
    qed
  next
    case (Exit n)
    with c obtain c' err where "failed_at c' err p" "watcher_promise c' err n (out p)" by auto
    then have "\<exists>c e. failed_at c e p \<and> watcher_promise c e n (out p)" by blast
    then have "fail_stop watcher_promise (Exit n :: unit outcome, p)"
      by (simp add: fail_stop_def)
    moreover have "main_watcher e = Some (Exit n, p)"
      by (simp add: main_watcher_def r Exit)
    ultimately show ?thesis by simp
  next
    case Panicked
    with c show ?thesis by simp
  qed
qed

subsection \<open>Failures and exit statuses\<close>

lemma fail_stop_member:
  assumes fs: "fail_stop pr r" and m: "(c, Some err) \<in> set (calls (snd r))"
  shows "failed_at c err (snd r) \<and> pr c err (exit_status (fst r)) (out (snd r))"
proof -
  from m have "\<not> clean (snd r)"
    by (force simp: clean_def list_all_iff)
  with fs obtain c' err' where f: "failed_at c' err' (snd r)"
    and p: "pr c' err' (exit_status (fst r)) (out (snd r))"
    by (auto simp: fail_stop_def)
  from f obtain before where rv: "rev (calls (snd r)) = (c', Some err') # before"
    and ok: "list_all (\<lambda>x. snd x = None) before"
    by (auto simp: failed_at_def split: list.splits)
  from m have "(c, Some err) \<in> set (rev (calls (snd r)))" by simp
  with rv ok have "(c, Some err) = (c', Some err')"
    by (auto simp: list_all_iff)
  with f p show ?thesis by simp
qed

text \<open>
  Claim C3, as amended. In every run of the Deployment, the DeploymentConfig and the
  MachineSet utility, and in every run of the watcher that ends, at most one call to the
  operating system, the client libraries or the API fails, and it is the last call of the run:
  the process makes no further call and no retry. After such a failure the exit status
  is not 0 and the last thing written reports the error of the failed call (a
  \<^verbatim>\<open>Printf\<close> or a line of \<^verbatim>\<open>log.Fatal\<close> with that error, or with an error that
  \<^verbatim>\<open>fmt.Errorf\<close> built from it, among its operands, or a panic with such a value), with
  three exceptions. When the list request of the MachineSet utility fails with a not-found
  error, the utility writes \<^verbatim>\<open>No Machinesets found in namespace\<close> and exits with status
  0. When the watch request of the watcher fails, the watcher writes the error last and
  ends at once; its exit status is not part of the statement. When the loading of the
  configuration or the construction of the client fails in one of the three utilities, the
  exit status is not 0 and a line of \<^verbatim>\<open>log.Fatal\<close> is written last; what that line holds
  is not part of the statement. A watcher that does not end has had no failure and is
  waiting on a stream that is never closed.
\<close>

theorem failures_end_the_process:
  "fail_stop utility_promise (main_deployments e1 start)
   \<and> fail_stop utility_promise (main_deploymentconfigs e2 start)
   \<and> fail_stop machinesets_promise (main_machinesets e3 start)
   \<and> ((\<exists>r. main_watcher e4 = Some r \<and> fail_stop watcher_promise r) \<or>
       (\<exists>ch p. main_until_loop e4 start = (Returned (Some ch), p) \<and> clean p \<and>
                range_ResultChan ch 0 p = None))"
  by (intro conjI main_deployments_fail_stop main_deploymentconfigs_fail_stop
        main_machinesets_fail_stop main_watcher_fail_stop)

lemma main_machinesets_not_found:
  "main_machinesets (example_env (example_MachineClient (Inl not_found))) start =
     (Exit 0,
      \<lparr>out = [Printf ''Using kubeconfig: %s\<newline>'' [S ''/home/dev/.kube/config''],
              Printf ''%T\<newline>'' [Client_value ''*v1beta1.MachineV1beta1Client''],
              Printf ''No Machinesets found in namespace\<newline>'' []],
       calls = [(os_UserHomeDir, None),
                (clientcmd_BuildConfigFromFlags '''' ''/home/dev/.kube/config'', None),
                (NewForConfig_call ''/home/dev/.kube/config'', None),
                (List_MachineSets '''', Some not_found)]\<rparr>)"
  by (simp add: main_machinesets_def prog_defs Let_def start_def example_env_def example_Join_def
        example_MachineClient_def not_found_def)

lemma main_watcher_refused:
  "main_watcher (example_env (example_Clientset (Inl refused) (Inl refused) (Inl refused)
       (Inl refused))) =
     Some (Returned (),
      \<lparr>out = [Printf ''Using kubeconfig: %s\<newline>'' [S ''/home/dev/.kube/config''],
              Println [S ''Watch Kubernetes Pods in CrashLoopBackOff state''],
              Printf ''error create pod watcher: %v\<newline>'' [V refused]],
       calls = [(os_UserHomeDir, None),
                (clientcmd_BuildConfigFromFlags '''' ''/home/dev/.kube/config'', None),
                (NewForConfig_call ''/home/dev/.kube/config'', None),
                (Watch_Pods '''' '''', Some refused)]\<rparr>)"
  by (simp add: main_watcher_def main_until_loop_def prog_defs Let_def start_def example_env_def
        example_Join_def example_Clientset_def)

lemma main_deploymentconfigs_config_fails:
  "main_deploymentconfigs
     ((example_env (example_AppsV1Client (Inl refused)))
        \<lparr>BuildConfigFromFlags := (\<lambda>masterUrl kubeconfigPath. Inl refused)\<rparr>) start =
     (Exit 1,
      \<lparr>out = [Printf ''Using kubeconfig: %s\<newline>'' [S ''/home/dev/.kube/config''],
              Log_Fatal [Method_value]],
       calls = [(os_UserHomeDir, None),
                (clientcmd_BuildConfigFromFlags '''' ''/home/dev/.kube/config'', Some refused)]\<rparr>)"
  by (simp add: main_deploymentconfigs_def prog_defs Let_def start_def example_env_def
        example_Join_def)

text \<open>
  Two failures after which the exit status is 0: the list request of the MachineSet
  utility answered with a not-found error, and the watch request of the watcher refused
  (\<^verbatim>\<open>main\<close> returns at line 46, where the three failures before it call
  \<^verbatim>\<open>os.Exit(1)\<close>). And a failure after which no error message is written: when the
  configuration cannot be loaded, the DeploymentConfig utility passes the method value
  \<^verbatim>\<open>err.Error\<close> to \<^verbatim>\<open>log.Fatal\<close>, so that nothing it has written reports the error.
\<close>

theorem failures_with_status_zero:
  "exit_status (fst (main_machinesets (example_env (example_MachineClient (Inl not_found))) start)) = 0
   \<and> snd (last (calls (snd (main_machinesets
         (example_env (example_MachineClient (Inl not_found))) start)))) = Some not_found
   \<and> map_option (\<lambda>r. (exit_status (fst r), snd (last (calls (snd r)))))
        (main_watcher (example_env (example_Clientset (Inl refused) (Inl refused) (Inl refused)
           (Inl refused)))) = Some (0, Some refused)
   \<and> snd (last (calls (snd (main_deploymentconfigs
         ((example_env (example_AppsV1Client (Inl refused)))
            \<lparr>BuildConfigFromFlags := (\<lambda>masterUrl kubeconfigPath. Inl refused)\<rparr>) start))))
       = Some refused
   \<and> out (snd (main_deploymentconfigs
         ((example_env (example_AppsV1Client (Inl refused)))
            \<lparr>BuildConfigFromFlags := (\<lambda>masterUrl kubeconfigPath. Inl refused)\<rparr>) start))
       = [Printf ''Using kubeconfig: %s\<newline>'' [S ''/home/dev/.kube/config''],
          Log_Fatal [Method_value]]
   \<and> list_all (\<lambda>w. \<not> is_report refused w)
         [Printf ''Using kubeconfig: %s\<newline>'' [S ''/home/dev/.kube/config''],
          Log_Fatal [Method_value]]"
  by (simp add: main_machinesets_not_found main_watcher_refused
        main_deploymentconfigs_config_fails)

text \<open>
  Claim C7. In the MachineSet utility, a list request that fails with a not-found error
  ends the process with exit status 0, the message \<^verbatim>\<open>No Machinesets found in namespace\<close>
  written last. In the Deployment utility a failed get or list request, and in the
  DeploymentConfig utility a failed list request, ends the process with an exit status
  other than 0.
\<close>

theorem not_found_exits_zero_other_failures_fatal:
  "((List_MachineSets ns, Some err) \<in> set (calls (snd (main_machinesets em start))) \<and>
      IsNotFound err \<longrightarrow>
        exit_status (fst (main_machinesets em start)) = 0 \<and>
        out (snd (main_machinesets em start)) \<noteq> [] \<and>
        last (out (snd (main_machinesets em start))) =
          Printf ''No Machinesets found in namespace\<newline>'' [])
   \<and> ((Get_Deployment nsg ng, Some errg) \<in> set (calls (snd (main_deployments ed start))) \<longrightarrow>
        exit_status (fst (main_deployments ed start)) \<noteq> 0)
   \<and> ((List_Deployments nsl, Some errl) \<in> set (calls (snd (main_deployments ed start))) \<longrightarrow>
        exit_status (fst (main_deployments ed start)) \<noteq> 0)
   \<and> ((List_DeploymentConfigs nsc, Some errc)
          \<in> set (calls (snd (main_deploymentconfigs ec start))) \<longrightarrow>
        exit_status (fst (main_deploymentconfigs ec start)) \<noteq> 0)"
proof (intro conjI impI)
  assume a: "(List_MachineSets ns, Some err) \<in> set (calls (snd (main_machinesets em start))) \<and>
    IsNotFound err"
  from fail_stop_member [OF main_machinesets_fail_stop, of "List_MachineSets ns" err em] a
  have p: "exit_status (fst (main_machinesets em start)) = 0 \<and>
    out (snd (main_machinesets em start)) \<noteq> [] \<and>
    last (out (snd (main_machinesets em start))) =
      Printf ''No Machinesets found in namespace\<newline>'' []"
    by simp
  from p show "exit_status (fst (main_machinesets em start)) = 0" by simp
  from p show "out (snd (main_machinesets em start)) \<noteq> []" by simp
  from p show "last (out (snd (main_machinesets em start))) =
      Printf ''No Machinesets found in namespace\<newline>'' []" by simp
next
  assume "(Get_Deployment nsg ng, Some errg) \<in> set (calls (snd (main_deployments ed start)))"
  from fail_stop_member [OF main_deployments_fail_stop this]
  show "exit_status (fst (main_deployments ed start)) \<noteq> 0" by (simp add: fatal_def)
next
  assume "(List_Deployments nsl, Some errl) \<in> set (calls (snd (main_deployments ed start)))"
  from fail_stop_member [OF main_deployments_fail_stop this]
  show "exit_status (fst (main_deployments ed start)) \<noteq> 0" by (simp add: fatal_def)
next
  assume "(List_DeploymentConfigs nsc, Some errc)
    \<in> set (calls (snd (main_deploymentconfigs ec start)))"
  from fail_stop_member [OF main_deploymentconfigs_fail_stop this]
  show "exit_status (fst (main_deploymentconfigs ec start)) \<noteq> 0" by (simp add: fatal_def)
qed

lemma range_Deployments_run:
  "range_Deployments ds p =
     (Returned (),
      p\<lparr>out := out p @ map (\<lambda>d. Printf ''%s\<newline>'' [S (Name (Deployment_ObjectMeta d))]) ds\<rparr>)"
  by (induction ds arbitrary: p) (simp_all add: prog_defs)

lemma range_DeploymentConfigs_run:
  "range_DeploymentConfigs ds p =
     (Returned (),
      p\<lparr>out := out p @ map (\<lambda>d. Printf ''%s\<newline>'' [S (Name (DC_ObjectMeta d))]) ds\<rparr>)"
  by (induction ds arbitrary: p) (simp_all add: prog_defs)

lemma main_deployments_get_fails:
  "main_deployments (example_env (example_Clientset (Inl not_found) (Inl refused) (Inl refused)
       (Inl refused))) start =
   (Exit 1,
    \<lparr>out = [Printf ''Using kubeconfig: %s\<newline>'' [S ''/home/dev/.kube/config''],
            Printf ''%T\<newline>'' [Client_value ''*kubernetes.Clientset''],
            Println [S ''Creating deployment...''],
            Printf ''Created deployment %q.\<newline>'' [S ''''],
            Println [S ''Get Deployment in namespace'', S ''''],
            Printf ''Failed to getting Deployment: %v\<newline>'' [V not_found],
            Log_Fatal [V not_found]],
     calls = calls (snd (main_deployments (example_env (example_Clientset (Inl not_found)
               (Inl refused) (Inl refused) (Inl refused))) start))\<rparr>)
   \<and> (Get_Deployment '''' '''', Some not_found)
       \<in> set (calls (snd (main_deployments (example_env (example_Clientset (Inl not_found)
               (Inl refused) (Inl refused) (Inl refused))) start)))"
  by (simp add: main_deployments_def getK8sClient_def CreateDeployment_def GetDeployment_def
        prog_defs Let_def start_def example_env_def example_Join_def example_Clientset_def)

lemma main_deployments_list_fails:
  "fst (main_deployments (example_env (example_Clientset (Inr (example_Deployment ''''))
       (Inl refused) (Inl refused) (Inl refused))) start) = Exit 1
   \<and> (List_Deployments '''', Some refused)
       \<in> set (calls (snd (main_deployments (example_env (example_Clientset
              (Inr (example_Deployment '''')) (Inl refused) (Inl refused) (Inl refused))) start)))"
  by (simp add: main_deployments_def getK8sClient_def CreateDeployment_def GetDeployment_def
        ListDeployment_def prog_defs Let_def start_def example_env_def example_Join_def
        example_Clientset_def)

lemma main_deploymentconfigs_list_fails:
  "fst (main_deploymentconfigs (example_env (example_AppsV1Client (Inl refused))) start) = Exit 1
   \<and> (List_DeploymentConfigs ''my-namespace'', Some refused)
       \<in> set (calls (snd (main_deploymentconfigs (example_env (example_AppsV1Client
              (Inl refused))) start)))"
  by (simp add: main_deploymentconfigs_def CreateDeploymentConfig_def ListDeploymentConfigs_def
        prog_defs Let_def start_def example_env_def example_Join_def example_AppsV1Client_def)

text \<open>
  A run with a failure: on a cluster where the Deployment is not found, the get request
  is logged as failed, the exit status is not 0 and the last thing written reports the
  not-found error.
\<close>

theorem failures_end_the_process_witness:
  "(Get_Deployment '''' '''', Some not_found)
      \<in> set (calls (snd (main_deployments (example_env (example_Clientset (Inl not_found)
               (Inl refused) (Inl refused) (Inl refused))) start)))
   \<and> exit_status (fst (main_deployments (example_env (example_Clientset (Inl not_found)
               (Inl refused) (Inl refused) (Inl refused))) start)) \<noteq> 0
   \<and> is_report not_found (last (out (snd (main_deployments (example_env (example_Clientset
               (Inl not_found) (Inl refused) (Inl refused) (Inl refused))) start))))"
proof -
  let ?r = "main_deployments (example_env (example_Clientset (Inl not_found)
               (Inl refused) (Inl refused) (Inl refused))) start"
  note m = main_deployments_get_fails [THEN conjunct2]
  from failures_end_the_process [of "example_env (example_Clientset (Inl not_found)
               (Inl refused) (Inl refused) (Inl refused))"]
  have "fail_stop utility_promise ?r" by simp
  from fail_stop_member [OF this m] m show ?thesis by (simp add: fatal_def)
qed

text \<open>
  The four cases on example clusters: no MachineSets found; a Deployment that is not found;
  a refused list of Deployments; a refused list of DeploymentConfigs.
\<close>

theorem not_found_exits_zero_other_failures_fatal_witness:
  "(List_MachineSets '''', Some not_found)
      \<in> set (calls (snd (main_machinesets (example_env (example_MachineClient (Inl not_found))) start)))
   \<and> IsNotFound not_found
   \<and> exit_status (fst (main_machinesets (example_env (example_MachineClient (Inl not_found))) start)) = 0
   \<and> last (out (snd (main_machinesets (example_env (example_MachineClient (Inl not_found))) start)))
       = Printf ''No Machinesets found in namespace\<newline>'' []
   \<and> (Get_Deployment '''' '''', Some not_found)
      \<in> set (calls (snd (main_deployments (example_env (example_Clientset (Inl not_found)
               (Inl refused) (Inl refused) (Inl refused))) start)))
   \<and> exit_status (fst (main_deployments (example_env (example_Clientset (Inl not_found)
               (Inl refused) (Inl refused) (Inl refused))) start)) \<noteq> 0
   \<and> (List_Deployments '''', Some refused)
       \<in> set (calls (snd (main_deployments (example_env (example_Clientset
              (Inr (example_Deployment '''')) (Inl refused) (Inl refused) (Inl refused))) start)))
   \<and> exit_status (fst (main_deployments (example_env (example_Clientset
              (Inr (example_Deployment '''')) (Inl refused) (Inl refused) (Inl refused))) start)) \<noteq> 0
   \<and> (List_DeploymentConfigs ''my-namespace'', Some refused)
       \<in> set (calls (snd (main_deploymentconfigs (example_env (example_AppsV1Client
              (Inl refused))) start)))
   \<and> exit_status (fst (main_deploymentconfigs (example_env (example_AppsV1Client
              (Inl refused))) start)) \<noteq> 0"
proof -
  have m: "(List_MachineSets '''', Some not_found)
      \<in> set (calls (snd (main_machinesets (example_env (example_MachineClient (Inl not_found))) start)))"
    by (simp add: main_machinesets_not_found)
  have nf: "IsNotFound not_found" by (simp add: not_found_def)
  note g = main_deployments_get_fails [THEN conjunct2]
  note l = main_deployments_list_fails [THEN conjunct2]
  note c = main_deploymentconfigs_list_fails [THEN conjunct2]
  from not_found_exits_zero_other_failures_fatal
         [where em = "example_env (example_MachineClient (Inl not_found))"
            and ns = "''''" and err = not_found
            and ed = "example_env (example_Clientset (Inl not_found) (Inl refused) (Inl refused)
                        (Inl refused))"
            and nsg = "''''" and ng = "''''" and errg = not_found
            and ec = "example_env (example_AppsV1Client (Inl refused))"
            and nsc = "''my-namespace''" and errc = refused]
       not_found_exits_zero_other_failures_fatal
         [where ed = "example_env (example_Clientset (Inr (example_Deployment ''''))
                        (Inl refused) (Inl refused) (Inl refused))"
            and nsl = "''''" and errl = refused]
       m nf g l c
  show ?thesis by simp
qed

section \<open>The watcher on a closed stream\<close>

text \<open>
  Claim C6. On a stream of \<open>N\<close> events that the producer then closes, the loop receives
  all \<open>N\<close> events and ends, with the lines of these events written in order. When no
  event of the stream has a container status waiting with reason \<^verbatim>\<open>CrashLoopBackOff\<close>,
  the loop ends after the \<open>N\<close> events with the state of the process unchanged: no line and
  no call. When the set-up of \<^verbatim>\<open>main\<close> has reached the loop with such a channel,
  \<^verbatim>\<open>main\<close> returns after the loop, so the process ends with exit status 0.
\<close>

theorem closed_stream_ends_normally:
  "range_ResultChan (closed_after es) 0 p =
     Some (length es, p\<lparr>out := out p @ concat (map process_event es)\<rparr>)
   \<and> ((\<forall>ev \<in> set es. \<forall>pod. Object ev = PodObject pod \<longrightarrow>
          (\<forall>c \<in> set (ContainerStatuses (Pod_Status pod)).
             \<forall>w. Waiting (State c) = Some w \<longrightarrow> Reason w \<noteq> ''CrashLoopBackOff''))
       \<longrightarrow> range_ResultChan (closed_after es) 0 p = Some (length es, p))
   \<and> (main_until_loop e start = (Returned (Some (closed_after es)), q)
       \<longrightarrow> main_watcher e =
             Some (Returned (), q\<lparr>out := out q @ concat (map process_event es)\<rparr>) \<and>
           exit_status (Returned ()) = 0)"
proof (intro conjI impI)
  show "range_ResultChan (closed_after es) 0 p =
     Some (length es, p\<lparr>out := out p @ concat (map process_event es)\<rparr>)"
    by (rule range_ResultChan_all)
next
  assume q: "\<forall>ev \<in> set es. \<forall>pod. Object ev = PodObject pod \<longrightarrow>
          (\<forall>c \<in> set (ContainerStatuses (Pod_Status pod)).
             \<forall>w. Waiting (State c) = Some w \<longrightarrow> Reason w \<noteq> ''CrashLoopBackOff'')"
  have "process_event ev = []" if "ev \<in> set es" for ev
  proof (cases "Object ev")
    case (OtherObject k)
    then show ?thesis by (simp add: process_event_def)
  next
    case (PodObject pod)
    with q that have "\<forall>c \<in> set (ContainerStatuses (Pod_Status pod)).
             \<forall>w. Waiting (State c) = Some w \<longrightarrow> Reason w \<noteq> ''CrashLoopBackOff''"
      by blast
    then have "filter (\<lambda>c. \<exists>w. Waiting (State c) = Some w \<and> Reason w = ''CrashLoopBackOff'')
          (ContainerStatuses (Pod_Status pod)) = []"
      by (auto simp: filter_empty_conv)
    with PodObject show ?thesis
      by (simp add: process_event_def range_ContainerStatuses_replicate)
  qed
  then have "concat (map process_event es) = []" by simp
  then show "range_ResultChan (closed_after es) 0 p = Some (length es, p)"
    by (simp add: range_ResultChan_all)
next
  assume "main_until_loop e start = (Returned (Some (closed_after es)), q)"
  then show "main_watcher e =
     Some (Returned (), q\<lparr>out := out q @ concat (map process_event es)\<rparr>)"
    by (simp add: main_watcher_def range_ResultChan_all)
next
  show "exit_status (Returned ()) = 0" by simp
qed

lemma main_until_loop_quiet:
  "main_until_loop (example_env (example_Clientset (Inl refused) (Inl refused) (Inl refused)
       (Inr (closed_after quiet_events)))) start =
     (Returned (Some (closed_after quiet_events)),
      \<lparr>out = [Printf ''Using kubeconfig: %s\<newline>'' [S ''/home/dev/.kube/config''],
              Println [S ''Watch Kubernetes Pods in CrashLoopBackOff state'']],
       calls = [(os_UserHomeDir, None),
                (clientcmd_BuildConfigFromFlags '''' ''/home/dev/.kube/config'', None),
                (NewForConfig_call ''/home/dev/.kube/config'', None),
                (Watch_Pods '''' '''', None)]\<rparr>)"
  by (simp add: main_until_loop_def prog_defs Let_def start_def example_env_def
        example_Join_def example_Clientset_def)

lemma quiet_events_quiet:
  "\<forall>ev \<in> set quiet_events. \<forall>pod. Object ev = PodObject pod \<longrightarrow>
     (\<forall>c \<in> set (ContainerStatuses (Pod_Status pod)).
        \<forall>w. Waiting (State c) = Some w \<longrightarrow> Reason w \<noteq> ''CrashLoopBackOff'')"
  by (simp add: quiet_events_def)

text \<open>
  A stream of three events without a match, on a cluster that accepts the watch request:
  the loop receives the three events and writes nothing, and \<^verbatim>\<open>main\<close> returns with the
  two lines of its set-up as its whole output.
\<close>

theorem closed_stream_ends_normally_witness:
  "range_ResultChan (closed_after quiet_events) 0 start = Some (3, start)
   \<and> main_watcher (example_env (example_Clientset (Inl refused) (Inl refused) (Inl refused)
        (Inr (closed_after quiet_events)))) =
     Some (Returned (),
      \<lparr>out = [Printf ''Using kubeconfig: %s\<newline>'' [S ''/home/dev/.kube/config''],
              Println [S ''Watch Kubernetes Pods in CrashLoopBackOff state'']],
       calls = [(os_UserHomeDir, None),
                (clientcmd_BuildConfigFromFlags '''' ''/home/dev/.kube/config'', None),
                (NewForConfig_call ''/home/dev/.kube/config'', None),
                (Watch_Pods '''' '''', None)]\<rparr>)"
proof -
  have len: "length quiet_events = 3" by (simp add: quiet_events_def)
  have none: "concat (map process_event quiet_events) = []"
    by (simp add: quiet_events_def process_event_def)
  from closed_stream_ends_normally [of quiet_events start
         "example_env (example_Clientset (Inl refused) (Inl refused) (Inl refused)
            (Inr (closed_after quiet_events)))"
         "\<lparr>out = [Printf ''Using kubeconfig: %s\<newline>'' [S ''/home/dev/.kube/config''],
              Println [S ''Watch Kubernetes Pods in CrashLoopBackOff state'']],
       calls = [(os_UserHomeDir, None),
                (clientcmd_BuildConfigFromFlags '''' ''/home/dev/.kube/config'', None),
                (NewForConfig_call ''/home/dev/.kube/config'', None),
                (Watch_Pods '''' '''', None)]\<rparr>"]
       quiet_events_quiet main_until_loop_quiet len none
  show ?thesis by simp
qed

section \<open>Requests made by the operations\<close>

lemma CreateDeployment_one:
  "\<exists>x. calls (snd (CreateDeployment c name namespace image' replicas p)) = calls p @ [x]"
  by (simp add: CreateDeployment_def prog_defs Let_def split: sum.splits)

lemma GetDeployment_one:
  "\<exists>x. calls (snd (GetDeployment c name namespace p)) = calls p @ [x]"
  by (simp add: GetDeployment_def prog_defs Let_def split: sum.splits)

lemma ListDeployment_one:
  "\<exists>x. calls (snd (ListDeployment c namespace p)) = calls p @ [x]"
  by (simp add: ListDeployment_def prog_defs Let_def split: sum.splits)

lemma UpdateDeployment_one:
  "\<exists>x. calls (snd (UpdateDeployment c name namespace image' p)) = calls p @ [x]"
  by (simp add: UpdateDeployment_def prog_defs Let_def split: sum.splits)

lemma DeleteDeployment_one:
  "\<exists>x. calls (snd (DeleteDeployment c name namespace p)) = calls p @ [x]"
  by (simp add: DeleteDeployment_def prog_defs Let_def split: option.splits)

lemma CreateDeploymentConfig_one:
  "\<exists>x. calls (snd (CreateDeploymentConfig name namespace image' replicas client p)) = calls p @ [x]"
  by (simp add: CreateDeploymentConfig_def prog_defs Let_def split: sum.splits)

lemma ListDeploymentConfigs_one:
  "\<exists>x. calls (snd (ListDeploymentConfigs namespace client p)) = calls p @ [x]"
  by (simp add: ListDeploymentConfigs_def prog_defs Let_def split: sum.splits)

lemma ScaleDeploymentConfig_one:
  "\<exists>x. calls (snd (ScaleDeploymentConfig name namespace scale client p)) = calls p @ [x]"
  by (simp add: ScaleDeploymentConfig_def prog_defs Let_def split: sum.splits)

lemma UpdateDeploymentConfigImage_one:
  "\<exists>x. calls (snd (UpdateDeploymentConfigImage name namespace image' client p)) = calls p @ [x]"
  by (simp add: UpdateDeploymentConfigImage_def prog_defs Let_def split: sum.splits)

lemma DeleteDeploymentConfig_one:
  "\<exists>x. calls (snd (DeleteDeploymentConfig name namespace client p)) = calls p @ [x]"
  by (simp add: DeleteDeploymentConfig_def prog_defs Let_def split: option.splits)

lemma ScaleDeployment_count:
  "length (calls (snd (ScaleDeployment c name namespace replica p))) =
     length (calls p) +
     (case Deployments_GetScale (Client c) (calls p) namespace name of
        Inl err \<Rightarrow> 1
      | Inr sd \<Rightarrow> if Scale_Replicas (Scale_Spec sd) = replica \<or> sint replica < 0 then 1 else 2)"
  by (simp add: ScaleDeployment_def prog_defs Let_def split: sum.splits)

lemma range_MachineSets_count:
  "length (calls (snd (range_MachineSets client payloadBytes mss p))) \<le> length (calls p) + length mss
   \<and> (fst (range_MachineSets client payloadBytes mss p) = Panicked \<or>
       length (calls (snd (range_MachineSets client payloadBytes mss p))) =
         length (calls p) + length mss)"
proof (induction mss arbitrary: p)
  case Nil
  show ?case by (simp add: return_def)
next
  case (Cons ms mss)
  let ?c = "Patch_MachineSet (Namespace (MachineSet_ObjectMeta ms))
              (Name (MachineSet_ObjectMeta ms)) JSONPatchType payloadBytes"
  let ?p1 = "emit (Printf ''%+v\<newline>'' [S (Name (MachineSet_ObjectMeta ms))]) p"
  show ?case
  proof (cases "MachineSets_Patch client (calls ?p1) (Namespace (MachineSet_ObjectMeta ms))
                  (Name (MachineSet_ObjectMeta ms)) JSONPatchType payloadBytes")
    case (Inl err)
    then show ?thesis by (simp add: prog_defs Let_def)
  next
    case (Inr v)
    let ?p2 = "emit (Printf ''Updated scale for Machine Set: %s\<newline>''
                 [S (Name (MachineSet_ObjectMeta ms))]) (?p1\<lparr>calls := calls ?p1 @ [(?c, None)]\<rparr>)"
    have "range_MachineSets client payloadBytes (ms # mss) p =
            range_MachineSets client payloadBytes mss ?p2"
      using Inr by (simp add: prog_defs Let_def)
    with Cons.IH [of ?p2] show ?thesis by (simp add: emit_def)
  qed
qed

text \<open>
  Claim C4, as amended. Each of \<^verbatim>\<open>CreateDeployment\<close>, \<^verbatim>\<open>GetDeployment\<close>,
  \<^verbatim>\<open>ListDeployment\<close>, \<^verbatim>\<open>UpdateDeployment\<close>, \<^verbatim>\<open>DeleteDeployment\<close>,
  \<^verbatim>\<open>CreateDeploymentConfig\<close>, \<^verbatim>\<open>ListDeploymentConfigs\<close>, \<^verbatim>\<open>ScaleDeploymentConfig\<close>,
  \<^verbatim>\<open>UpdateDeploymentConfigImage\<close> and \<^verbatim>\<open>DeleteDeploymentConfig\<close> makes exactly one
  request, whatever the reply. \<^verbatim>\<open>ScaleDeployment\<close> makes one request (get-scale) when
  that request fails, or when the requested count is negative or equal to the current
  one, and two requests (get-scale, then update-scale) otherwise. The loop of the
  MachineSet utility makes one patch request for each listed MachineSet until one fails:
  at most as many requests as MachineSets, and exactly as many unless it panics. The
  loops of the Deployment and DeploymentConfig utilities write one line for each listed
  object and make no request.
\<close>

theorem requests_per_operation:
  "(\<exists>x. calls (snd (CreateDeployment c name namespace image' replicas p)) = calls p @ [x])
   \<and> (\<exists>x. calls (snd (GetDeployment c name namespace p)) = calls p @ [x])
   \<and> (\<exists>x. calls (snd (ListDeployment c namespace p)) = calls p @ [x])
   \<and> (\<exists>x. calls (snd (UpdateDeployment c name namespace image' p)) = calls p @ [x])
   \<and> (\<exists>x. calls (snd (DeleteDeployment c name namespace p)) = calls p @ [x])
   \<and> (\<exists>x. calls (snd (CreateDeploymentConfig name namespace image' replicas dc p)) = calls p @ [x])
   \<and> (\<exists>x. calls (snd (ListDeploymentConfigs namespace dc p)) = calls p @ [x])
   \<and> (\<exists>x. calls (snd (ScaleDeploymentConfig name namespace scale dc p)) = calls p @ [x])
   \<and> (\<exists>x. calls (snd (UpdateDeploymentConfigImage name namespace image' dc p)) = calls p @ [x])
   \<and> (\<exists>x. calls (snd (DeleteDeploymentConfig name namespace dc p)) = calls p @ [x])
   \<and> length (calls (snd (ScaleDeployment c name namespace replica p))) =
       length (calls p) +
       (case Deployments_GetScale (Client c) (calls p) namespace name of
          Inl err \<Rightarrow> 1
        | Inr sd \<Rightarrow> if Scale_Replicas (Scale_Spec sd) = replica \<or> sint replica < 0 then 1 else 2)
   \<and> length (calls (snd (range_MachineSets mc payloadBytes mss p))) \<le> length (calls p) + length mss
   \<and> (fst (range_MachineSets mc payloadBytes mss p) = Panicked \<or>
       length (calls (snd (range_MachineSets mc payloadBytes mss p))) =
         length (calls p) + length mss)
   \<and> range_Deployments ds p =
       (Returned (),
        p\<lparr>out := out p @ map (\<lambda>d. Printf ''%s\<newline>'' [S (Name (Deployment_ObjectMeta d))]) ds\<rparr>)
   \<and> range_DeploymentConfigs dcs p =
       (Returned (),
        p\<lparr>out := out p @ map (\<lambda>d. Printf ''%s\<newline>'' [S (Name (DC_ObjectMeta d))]) dcs\<rparr>)"
  using range_MachineSets_count [of mc payloadBytes mss p]
  by (intro conjI CreateDeployment_one GetDeployment_one ListDeployment_one UpdateDeployment_one
        DeleteDeployment_one CreateDeploymentConfig_one ListDeploymentConfigs_one
        ScaleDeploymentConfig_one UpdateDeploymentConfigImage_one DeleteDeploymentConfig_one
        ScaleDeployment_count range_Deployments_run range_DeploymentConfigs_run) simp_all

text \<open>
  \<^verbatim>\<open>ScaleDeployment\<close> is not a single request: asked for 1 replica of a Deployment that
  has 3, it makes two requests, and asked for 1 replica of a Deployment that has 1, it
  makes one. The loop of the MachineSet utility makes two requests for two MachineSets.
\<close>

theorem ScaleDeployment_two_requests:
  "calls (snd (ScaleDeployment
       \<lparr>Client = example_Clientset (Inl refused) (Inl refused) (Inr (example_Scale 3)) (Inl refused)\<rparr>
       ''web'' ''shop'' 1 start)) =
     [(GetScale_Deployment ''shop'' ''web'', None),
      (UpdateScale_Deployment ''shop'' ''web'' (example_Scale 1), None)]
   \<and> calls (snd (ScaleDeployment
       \<lparr>Client = example_Clientset (Inl refused) (Inl refused) (Inr (example_Scale 1)) (Inl refused)\<rparr>
       ''web'' ''shop'' 1 start)) =
     [(GetScale_Deployment ''shop'' ''web'', None)]
   \<and> calls (snd (range_MachineSets (example_MachineClient (Inl refused))
        (json_integerPatches [])
        [example_MachineSet ''m'' ''a'', example_MachineSet ''m'' ''b''] start)) =
     [(Patch_MachineSet ''m'' ''a'' JSONPatchType (json_integerPatches []), None),
      (Patch_MachineSet ''m'' ''b'' JSONPatchType (json_integerPatches []), None)]"
  by (simp add: ScaleDeployment_def prog_defs Let_def start_def example_Clientset_def
        example_Scale_def example_MachineClient_def example_MachineSet_def)

section \<open>Scaling\<close>

text \<open>
  Claim C9, as amended. When the requested replica count is negative, or equal to the
  count of the scale object that the get-scale request returned, \<^verbatim>\<open>ScaleDeployment\<close>
  makes the get-scale request and no other: no update-scale request is issued. When the
  get-scale request has returned a scale object, the function then writes the one line
  \<^verbatim>\<open>Deployment ... replicas ..., no changes applied\<close> and returns. When the get-scale
  request has failed, the function writes \<^verbatim>\<open>error getting scale object\<close> with the error
  and the process exits with status 1.
\<close>

theorem ScaleDeployment_no_change:
  "sint replica < 0 \<or>
   Deployments_GetScale (Client c) (calls p) namespace name = Inr sd \<and>
   Scale_Replicas (Scale_Spec sd) = replica
   \<Longrightarrow>
   (\<exists>r. calls (snd (ScaleDeployment c name namespace replica p)) =
          calls p @ [(GetScale_Deployment namespace name, r)])
   \<and> (Deployments_GetScale (Client c) (calls p) namespace name = Inr sd \<longrightarrow>
        ScaleDeployment c name namespace replica p =
          (Returned (),
           p\<lparr>out := out p @ [Printf ''Deployment %s replicas %d, no changes applied\<newline>''
                                 [S name, D (sint replica)]],
              calls := calls p @ [(GetScale_Deployment namespace name, None)]\<rparr>))
   \<and> (\<forall>err. Deployments_GetScale (Client c) (calls p) namespace name = Inl err \<longrightarrow>
        ScaleDeployment c name namespace replica p =
          (Exit 1,
           p\<lparr>out := out p @ [Printf ''error getting scale object: %v\<newline>'' [V err]],
              calls := calls p @ [(GetScale_Deployment namespace name, Some err)]\<rparr>))"
  by (auto simp: ScaleDeployment_def prog_defs Let_def split: sum.splits)

text \<open>
  A Deployment with 3 replicas, asked for 3 replicas and asked for \<open>-1\<close> replicas, and a
  Deployment that is not found, asked for \<open>-1\<close> replicas.
\<close>

theorem ScaleDeployment_no_change_witness:
  "ScaleDeployment
     \<lparr>Client = example_Clientset (Inl refused) (Inl refused) (Inr (example_Scale 3)) (Inl refused)\<rparr>
     ''web'' ''shop'' 3 start =
     (Returned (),
      \<lparr>out = [Printf ''Deployment %s replicas %d, no changes applied\<newline>'' [S ''web'', D 3]],
       calls = [(GetScale_Deployment ''shop'' ''web'', None)]\<rparr>)
   \<and> ScaleDeployment
     \<lparr>Client = example_Clientset (Inl refused) (Inl refused) (Inr (example_Scale 3)) (Inl refused)\<rparr>
     ''web'' ''shop'' (- 1) start =
     (Returned (),
      \<lparr>out = [Printf ''Deployment %s replicas %d, no changes applied\<newline>'' [S ''web'', D (- 1)]],
       calls = [(GetScale_Deployment ''shop'' ''web'', None)]\<rparr>)
   \<and> ScaleDeployment
     \<lparr>Client = example_Clientset (Inl refused) (Inl refused) (Inl not_found) (Inl refused)\<rparr>
     ''web'' ''shop'' (- 1) start =
     (Exit 1,
      \<lparr>out = [Printf ''error getting scale object: %v\<newline>'' [V not_found]],
       calls = [(GetScale_Deployment ''shop'' ''web'', Some not_found)]\<rparr>)"
  using
    ScaleDeployment_no_change [of 3
      "\<lparr>Client = example_Clientset (Inl refused) (Inl refused) (Inr (example_Scale 3)) (Inl refused)\<rparr>"
      start "''shop''" "''web''" "example_Scale 3"]
    ScaleDeployment_no_change [of "- 1"
      "\<lparr>Client = example_Clientset (Inl refused) (Inl refused) (Inr (example_Scale 3)) (Inl refused)\<rparr>"
      start "''shop''" "''web''" "example_Scale 3"]
    ScaleDeployment_no_change [of "- 1"
      "\<lparr>Client = example_Clientset (Inl refused) (Inl refused) (Inl not_found) (Inl refused)\<rparr>"
      start "''shop''" "''web''" "example_Scale 3"]
  by (simp add: example_Clientset_def example_Scale_def start_def)

text \<open>
  A call with a negative count that does not write the line and does not return: the
  get-scale request is refused, and the process exits with status 1 after the error line.
\<close>

theorem ScaleDeployment_negative_without_scale:
  "sint (- 1 :: int32) < 0
   \<and> ScaleDeployment
     \<lparr>Client = example_Clientset (Inl refused) (Inl refused) (Inl refused) (Inl refused)\<rparr>
     ''web'' ''shop'' (- 1) start =
     (Exit 1,
      \<lparr>out = [Printf ''error getting scale object: %v\<newline>'' [V refused]],
       calls = [(GetScale_Deployment ''shop'' ''web'', Some refused)]\<rparr>)"
  by (simp add: ScaleDeployment_def prog_defs Let_def start_def example_Clientset_def)

lemma uint_ucast_go_int: "uint (ucast (scale :: go_int) :: uint32) = sint scale mod 2 ^ 32"
proof -
  have "uint (ucast scale :: uint32) = take_bit 32 (uint scale)"
    by (simp add: unsigned_ucast_eq)
  also have "\<dots> = take_bit 32 (sint scale)"
    by (simp add: sint_uint take_bit_signed_take_bit)
  finally show ?thesis by (simp add: take_bit_eq_mod)
qed

text \<open>
  Claim C10, as amended. \<^verbatim>\<open>ScaleDeploymentConfig\<close> makes one patch request, whatever
  the sign of \<^verbatim>\<open>scale\<close>, and the value of the patch is \<^verbatim>\<open>uint32(scale)\<close>: read as a
  number, \<^verbatim>\<open>scale\<close> modulo \<open>2^32\<close>. For a negative \<^verbatim>\<open>scale\<close> that is at least
  \<open>-2^31\<close> the value sent is at least \<open>2^31\<close>.
\<close>

theorem ScaleDeploymentConfig_replicas:
  "calls (snd (ScaleDeploymentConfig name namespace scale client p)) =
     calls p @
     [(Patch_DeploymentConfig namespace name JSONPatchType
         (json_integerPatches
            [\<lparr>integerPatch_Op = ''replace'', integerPatch_Path = ''/spec/replicas'',
              integerPatch_Value = ucast scale\<rparr>]),
       case DeploymentConfigs_Patch client (calls p) namespace name JSONPatchType
              (json_integerPatches
                 [\<lparr>integerPatch_Op = ''replace'', integerPatch_Path = ''/spec/replicas'',
                   integerPatch_Value = ucast scale\<rparr>]) of
         Inl err \<Rightarrow> Some err | Inr v \<Rightarrow> None)]
   \<and> uint (ucast scale :: uint32) = sint scale mod 2 ^ 32
   \<and> (- (2 ^ 31) \<le> sint scale \<and> sint scale < 0 \<longrightarrow> 2 ^ 31 \<le> uint (ucast scale :: uint32))"
proof (intro conjI impI)
  show "calls (snd (ScaleDeploymentConfig name namespace scale client p)) =
     calls p @
     [(Patch_DeploymentConfig namespace name JSONPatchType
         (json_integerPatches
            [\<lparr>integerPatch_Op = ''replace'', integerPatch_Path = ''/spec/replicas'',
              integerPatch_Value = ucast scale\<rparr>]),
       case DeploymentConfigs_Patch client (calls p) namespace name JSONPatchType
              (json_integerPatches
                 [\<lparr>integerPatch_Op = ''replace'', integerPatch_Path = ''/spec/replicas'',
                   integerPatch_Value = ucast scale\<rparr>]) of
         Inl err \<Rightarrow> Some err | Inr v \<Rightarrow> None)]"
    by (simp add: ScaleDeploymentConfig_def prog_defs Let_def split: sum.splits)
  show "uint (ucast scale :: uint32) = sint scale mod 2 ^ 32"
    by (rule uint_ucast_go_int)
  assume "- (2 ^ 31) \<le> sint scale \<and> sint scale < 0"
  then have "sint scale mod 2 ^ 32 = sint scale + 2 ^ 32"
    by (simp add: int_mod_pos_eq [where q = "- 1"])
  with \<open>- (2 ^ 31) \<le> sint scale \<and> sint scale < 0\<close>
  show "2 ^ 31 \<le> uint (ucast scale :: uint32)"
    by (simp add: uint_ucast_go_int)
qed

text \<open>The scale \<open>-1\<close> is sent as 4294967295 replicas.\<close>

theorem ScaleDeploymentConfig_replicas_witness:
  "calls (snd (ScaleDeploymentConfig ''my-deployment'' ''my-namespace'' (- 1)
       (example_AppsV1Client (Inl refused)) start)) =
     [(Patch_DeploymentConfig ''my-namespace'' ''my-deployment'' JSONPatchType
         (json_integerPatches
            [\<lparr>integerPatch_Op = ''replace'', integerPatch_Path = ''/spec/replicas'',
              integerPatch_Value = 4294967295\<rparr>]), None)]
   \<and> 2147483648 \<le> uint (ucast (- 1 :: go_int) :: uint32)"
proof -
  note t = ScaleDeploymentConfig_replicas [of "''my-deployment''" "''my-namespace''" "- 1"
          "example_AppsV1Client (Inl refused)" start]
  from t have u: "uint (ucast (- 1 :: go_int) :: uint32) = 4294967295" by simp
  then have v: "(ucast (- 1 :: go_int) :: uint32) = 4294967295"
    by (simp add: word_uint_eq_iff)
  from t u v show ?thesis
    by (simp add: example_AppsV1Client_def start_def)
qed

text \<open>
  A negative scale that is not sent as a large positive count: with the 64-bit
  \<^verbatim>\<open>int\<close>, the scale \<open>-4294967296\<close> is sent as 0 replicas, and the function reports success.
\<close>

theorem ScaleDeploymentConfig_negative_to_zero:
  "sint (- 4294967296 :: go_int) < 0
   \<and> ScaleDeploymentConfig ''my-deployment'' ''my-namespace'' (- 4294967296)
       (example_AppsV1Client (Inl refused)) start =
     (Returned (),
      \<lparr>out = [Printf ''Scaling DeploymentConfig `%s` in namespace `%s`\<newline>''
                [S ''my-deployment'', S ''my-namespace''],
              Printf ''Successfully scaled deploymentconfig to %d replicas\<newline>'' [D 0]],
       calls = [(Patch_DeploymentConfig ''my-namespace'' ''my-deployment'' JSONPatchType
                  (json_integerPatches
                     [\<lparr>integerPatch_Op = ''replace'', integerPatch_Path = ''/spec/replicas'',
                       integerPatch_Value = 0\<rparr>]), None)]\<rparr>)"
  by (simp add: ScaleDeploymentConfig_def prog_defs Let_def start_def example_AppsV1Client_def)

end
